theory Spec2Isabelle
  imports Complex_Main "HOL-Library.Word" "HOL-Library.Monad_Syntax" "HOL-Library.Log_Nat"
begin

section \<open>JavaScript values\<close>

text \<open>
  A JavaScript string is a sequence of UTF-16 code units; \<open>length\<close>, \<open>slice\<close>,
  \<open>includes\<close>, \<open>startsWith\<close> and \<open>endsWith\<close> all count and compare code units.
  String literals of the source are ASCII and are written \<open>js ''...''\<close>.
\<close>

type_synonym jsstring = "16 word list"

definition js :: "string \<Rightarrow> jsstring" where
  "js s = map of_char s"

text \<open>\<open>s.startsWith(p)\<close>, \<open>s.endsWith(p)\<close> and \<open>s.includes(p)\<close>.\<close>

fun startsWith :: "jsstring \<Rightarrow> jsstring \<Rightarrow> bool" where
  "startsWith s [] = True"
| "startsWith [] (p # ps) = False"
| "startsWith (c # cs) (p # ps) = (c = p \<and> startsWith cs ps)"

definition endsWith :: "jsstring \<Rightarrow> jsstring \<Rightarrow> bool" where
  "endsWith s p = startsWith (rev s) (rev p)"

fun includes_str :: "jsstring \<Rightarrow> jsstring \<Rightarrow> bool" where
  "includes_str [] p = (p = [])"
| "includes_str (c # cs) p = (startsWith (c # cs) p \<or> includes_str cs p)"

text \<open>
  The number type. A number is an IEEE 754 double; the numbers of this program come out
  of \<open>JSON.parse\<close> and are finite. A number is modelled by the rational it stands for;
  \<open>NaN\<close> and the infinities are outside the model. A nullable number is a
  \<open>rat option\<close>, \<open>None\<close> standing for \<open>null\<close> (and for \<open>undefined\<close>, which every
  function below treats alike).
\<close>

type_synonym number = rat

text \<open>
  The double nearest to a rational, as an arithmetic operation and the reading of a
  decimal literal round it: \<open>ilog2\<close> is the binary exponent \<open>\<lfloor>log\<^sub>2 x\<rfloor>\<close> of a positive
  \<open>x\<close>, the magnitude is scaled to an integer of 53 bits, rounded to the nearest
  integer, to the even one on a tie, and scaled back. The exponent is not bounded:
  overflow to infinity is outside the model, and a quotient small enough to underflow
  is below \<open>0.005\<close> in either reading.
\<close>

definition ilog2 :: "rat \<Rightarrow> int" where
  "ilog2 x = (if 1 \<le> x then bitlen \<lfloor>x\<rfloor> - 1 else - bitlen (\<lceil>1 / x\<rceil> - 1))"

definition round_half_even :: "rat \<Rightarrow> int" where
  "round_half_even x =
     (let n = \<lfloor>x\<rfloor>; r = x - of_int n
      in if r < 1 / 2 then n else if 1 / 2 < r then n + 1
         else if even n then n else n + 1)"

definition to_double :: "rat \<Rightarrow> number" where
  "to_double x =
     (if x = 0 then 0
      else (let e = ilog2 \<bar>x\<bar> - 52
            in sgn x * of_int (round_half_even (\<bar>x\<bar> / 2 powi e)) * 2 powi e))"

text \<open>\<open>!x\<close> on a nullable number: \<open>null\<close> and \<open>0\<close> are falsy.\<close>

fun falsy_number :: "number option \<Rightarrow> bool" where
  "falsy_number None = True"
| "falsy_number (Some x) = (x = 0)"

text \<open>
  \<open>x.toFixed(2)\<close>, as the decimal it prints: \<open>toFixed\<close> takes the sign off, picks the
  integer \<open>n\<close> with \<open>n / 100\<close> closest to the magnitude of the double, the larger \<open>n\<close> on
  a tie, and puts the sign back. \<open>Number(...)\<close> of that string is \<open>to_double\<close> of it.
\<close>

definition toFixed2 :: "number \<Rightarrow> rat" where
  "toFixed2 x =
     (if x < 0 then - (of_int \<lfloor>(- x) * 100 + 1 / 2\<rfloor> / 100)
      else of_int \<lfloor>x * 100 + 1 / 2\<rfloor> / 100)"

text \<open>What it means for \<open>r\<close> to be \<open>q\<close> rounded to two decimal places.\<close>

definition rounded_2dp :: "rat \<Rightarrow> rat \<Rightarrow> bool" where
  "rounded_2dp q r = (r * 100 = of_int \<lfloor>r * 100\<rfloor> \<and> \<bar>r - q\<bar> \<le> 1 / 200)"

section \<open>Derived-metrics calculator (lib/types.ts)\<close>

datatype ResourceConfidence = ConfHigh | ConfModerate | ConfLow

text \<open>
  \<^verbatim>\<open>if (!indicated || !inferred || inferred === 0) return null;
  return Number((indicated / inferred).toFixed(2));\<close>
  The division is the division of doubles: the exact quotient, rounded to a double.
\<close>

definition computeIndInfRatio :: "number option \<Rightarrow> number option \<Rightarrow> number option" where
  "computeIndInfRatio indicated inferred =
     (if falsy_number indicated \<or> falsy_number inferred \<or> inferred = Some 0 then None
      else case (indicated, inferred) of
             (Some i, Some f) \<Rightarrow> Some (to_double (toFixed2 (to_double (i / f))))
           | _ \<Rightarrow> None)"

text \<open>
  \<^verbatim>\<open>if (ratio === null) return null;
  if (ratio > 2) return 'high';
  if (ratio >= 0.5) return 'moderate';
  return 'low';\<close>
\<close>

definition computeResourceConfidence :: "number option \<Rightarrow> ResourceConfidence option" where
  "computeResourceConfidence ratio =
     (case ratio of
        None \<Rightarrow> None
      | Some r \<Rightarrow>
          if r > 2 then Some ConfHigh
          else if r \<ge> 1 / 2 then Some ConfModerate
          else Some ConfLow)"

section \<open>Records and enumerations (lib/types.ts)\<close>

datatype RiskLevel = RiskLow | RiskModerate | RiskHigh

datatype Priority = PriorityHigh | PriorityMedium | PriorityLow | PriorityPass

datatype Status = INVESTIGATE | WATCH | PASS

text \<open>
  The sections of \<open>ClaudeExtractionResponse\<close>. \<open>report_stage\<close> is a \<open>string | null\<close> in
  the response and is cast unchecked to \<open>ReportStage | null\<close>, so it stays a string.
\<close>

record Metadata =
  issuer_name :: "jsstring option"
  project_name :: "jsstring option"
  effective_date :: "jsstring option"
  report_stage :: "jsstring option"

record ProjectBasics =
  primary_commodity :: "jsstring option"
  secondary_commodities :: "jsstring list option"
  country :: "jsstring option"
  province_state :: "jsstring option"

record ResourceEstimate =
  total_indicated_mt :: "number option"
  indicated_avg_grade :: "jsstring option"
  total_inferred_mt :: "number option"
  inferred_avg_grade :: "jsstring option"
  total_measured_mt :: "number option"
  measured_avg_grade :: "jsstring option"
  cutoff_grade :: "jsstring option"
  resource_date :: "jsstring option"

record Economics =
  has_economic_study :: "bool option"
  npv_aftertax_musd :: "number option"
  npv_discount_rate :: "number option"
  irr_aftertax_percent :: "number option"
  capex_musd :: "number option"
  opex_per_unit :: "jsstring option"
  payback_years :: "number option"
  mine_life_years :: "number option"
  commodity_price_assumption :: "jsstring option"

record RiskAssessment =
  metallurgy_risk :: "RiskLevel option"
  metallurgy_notes :: "jsstring option"
  permitting_risk :: "RiskLevel option"
  permitting_notes :: "jsstring option"
  infrastructure_risk :: "RiskLevel option"
  geopolitical_risk :: "RiskLevel option"

record InvestmentAnalysis =
  investigation_priority :: "Priority option"
  priority_rationale :: "jsstring option"
  next_catalyst :: "jsstring option"
  catalyst_timeline :: "jsstring option"
  red_flags :: "jsstring list option"
  positive_signals :: "jsstring list option"
  magellan_score :: "number option"

record DerivedMetrics =
  indicated_inferred_ratio :: "number option"
  resource_confidence :: "ResourceConfidence option"

record ClaudeExtractionResponse =
  metadata :: Metadata
  project_basics :: ProjectBasics
  resource_estimate :: ResourceEstimate
  economics :: Economics
  risk_assessment :: RiskAssessment
  investment_analysis :: InvestmentAnalysis
  derived_metrics :: DerivedMetrics

text \<open>\<open>ExtractionInsert = Omit<Extraction, 'id' | 'created_at'>\<close>.\<close>

record ExtractionInsert =
  user_id :: jsstring
  pdf_filename :: "jsstring option"
  pdf_url :: "jsstring option"
  issuer_name :: "jsstring option"
  project_name :: "jsstring option"
  effective_date :: "jsstring option"
  report_stage :: "jsstring option"
  primary_commodity :: "jsstring option"
  secondary_commodities :: "jsstring list option"
  country :: "jsstring option"
  province_state :: "jsstring option"
  total_indicated_mt :: "number option"
  indicated_avg_grade :: "jsstring option"
  total_inferred_mt :: "number option"
  inferred_avg_grade :: "jsstring option"
  total_measured_mt :: "number option"
  measured_avg_grade :: "jsstring option"
  cutoff_grade :: "jsstring option"
  resource_date :: "jsstring option"
  has_economic_study :: "bool option"
  npv_aftertax_musd :: "number option"
  npv_discount_rate :: "number option"
  irr_aftertax_percent :: "number option"
  capex_musd :: "number option"
  opex_per_unit :: "jsstring option"
  payback_years :: "number option"
  mine_life_years :: "number option"
  commodity_price_assumption :: "jsstring option"
  metallurgy_risk :: "RiskLevel option"
  metallurgy_notes :: "jsstring option"
  permitting_risk :: "RiskLevel option"
  permitting_notes :: "jsstring option"
  infrastructure_risk :: "RiskLevel option"
  geopolitical_risk :: "RiskLevel option"
  investigation_priority :: "Priority option"
  priority_rationale :: "jsstring option"
  next_catalyst :: "jsstring option"
  catalyst_timeline :: "jsstring option"
  red_flags :: "jsstring list option"
  positive_signals :: "jsstring list option"
  magellan_score :: "number option"
  ind_inf_ratio :: "number option"
  resource_confidence :: "ResourceConfidence option"
  "notes" :: "jsstring option"
  status :: "Status option"

record Extraction = ExtractionInsert +
  id :: jsstring
  created_at :: jsstring

section \<open>Status classifier (lib/types.ts)\<close>

text \<open>\<open>!has_economic_study\<close>: \<open>null\<close>, \<open>undefined\<close> and \<open>false\<close> are falsy.\<close>

fun falsy_boolean :: "bool option \<Rightarrow> bool" where
  "falsy_boolean None = True"
| "falsy_boolean (Some b) = (\<not> b)"

text \<open>\<open>ind_inf_ratio && ind_inf_ratio > 2\<close>: the comparison is reached for a truthy number only.\<close>

fun truthy_and_greater :: "number option \<Rightarrow> number \<Rightarrow> bool" where
  "truthy_and_greater None k = False"
| "truthy_and_greater (Some r) k = (r \<noteq> 0 \<and> r > k)"

definition computeStatus :: "'a ExtractionInsert_scheme \<Rightarrow> Status" where
  "computeStatus extraction =
     (if ExtractionInsert.investigation_priority extraction = Some PriorityHigh \<or>
         (truthy_and_greater (ind_inf_ratio extraction) 2 \<and>
          ExtractionInsert.metallurgy_risk extraction \<noteq> Some RiskHigh) \<or>
         ((ExtractionInsert.report_stage extraction = Some (js ''PEA'') \<or>
           ExtractionInsert.report_stage extraction = Some (js ''Preliminary Assessment'')) \<and>
          falsy_boolean (ExtractionInsert.has_economic_study extraction))
      then INVESTIGATE
      else if ExtractionInsert.investigation_priority extraction = Some PriorityPass \<or>
              ExtractionInsert.metallurgy_risk extraction = Some RiskHigh \<or>
              ExtractionInsert.permitting_risk extraction = Some RiskHigh
      then PASS
      else WATCH)"

section \<open>Response transformer (lib/types.ts)\<close>

definition transformClaudeResponseToExtraction ::
  "ClaudeExtractionResponse \<Rightarrow> jsstring \<Rightarrow> jsstring \<Rightarrow> jsstring \<Rightarrow> ExtractionInsert" where
  "transformClaudeResponseToExtraction response userId pdfFilename pdfUrl =
     (let indInfRatio = computeIndInfRatio
            (ResourceEstimate.total_indicated_mt (resource_estimate response))
            (ResourceEstimate.total_inferred_mt (resource_estimate response));
          resourceConfidence = computeResourceConfidence indInfRatio;
          extraction = \<lparr>
            user_id = userId,
            pdf_filename = Some pdfFilename,
            pdf_url = Some pdfUrl,
            issuer_name = Metadata.issuer_name (metadata response),
            project_name = Metadata.project_name (metadata response),
            effective_date = Metadata.effective_date (metadata response),
            report_stage = Metadata.report_stage (metadata response),
            primary_commodity = ProjectBasics.primary_commodity (project_basics response),
            secondary_commodities = ProjectBasics.secondary_commodities (project_basics response),
            country = ProjectBasics.country (project_basics response),
            province_state = ProjectBasics.province_state (project_basics response),
            total_indicated_mt = ResourceEstimate.total_indicated_mt (resource_estimate response),
            indicated_avg_grade = ResourceEstimate.indicated_avg_grade (resource_estimate response),
            total_inferred_mt = ResourceEstimate.total_inferred_mt (resource_estimate response),
            inferred_avg_grade = ResourceEstimate.inferred_avg_grade (resource_estimate response),
            total_measured_mt = ResourceEstimate.total_measured_mt (resource_estimate response),
            measured_avg_grade = ResourceEstimate.measured_avg_grade (resource_estimate response),
            cutoff_grade = ResourceEstimate.cutoff_grade (resource_estimate response),
            resource_date = ResourceEstimate.resource_date (resource_estimate response),
            has_economic_study = Economics.has_economic_study (economics response),
            npv_aftertax_musd = Economics.npv_aftertax_musd (economics response),
            npv_discount_rate = Economics.npv_discount_rate (economics response),
            irr_aftertax_percent = Economics.irr_aftertax_percent (economics response),
            capex_musd = Economics.capex_musd (economics response),
            opex_per_unit = Economics.opex_per_unit (economics response),
            payback_years = Economics.payback_years (economics response),
            mine_life_years = Economics.mine_life_years (economics response),
            commodity_price_assumption = Economics.commodity_price_assumption (economics response),
            metallurgy_risk = RiskAssessment.metallurgy_risk (risk_assessment response),
            metallurgy_notes = RiskAssessment.metallurgy_notes (risk_assessment response),
            permitting_risk = RiskAssessment.permitting_risk (risk_assessment response),
            permitting_notes = RiskAssessment.permitting_notes (risk_assessment response),
            infrastructure_risk = RiskAssessment.infrastructure_risk (risk_assessment response),
            geopolitical_risk = RiskAssessment.geopolitical_risk (risk_assessment response),
            investigation_priority =
              InvestmentAnalysis.investigation_priority (investment_analysis response),
            priority_rationale = InvestmentAnalysis.priority_rationale (investment_analysis response),
            next_catalyst = InvestmentAnalysis.next_catalyst (investment_analysis response),
            catalyst_timeline = InvestmentAnalysis.catalyst_timeline (investment_analysis response),
            red_flags = InvestmentAnalysis.red_flags (investment_analysis response),
            positive_signals = InvestmentAnalysis.positive_signals (investment_analysis response),
            magellan_score = InvestmentAnalysis.magellan_score (investment_analysis response),
            ind_inf_ratio = indInfRatio,
            resource_confidence = resourceConfidence,
            notes = None,
            status = None \<rparr>
      in extraction \<lparr> status := Some (computeStatus extraction) \<rparr>)"

section \<open>JSON values and payload validation (lib/claude.ts)\<close>

text \<open>
  The value \<open>JSON.parse\<close> returns. An object is the list of its members in source
  order; a later member overrides an earlier one of the same name.
\<close>

datatype json =
  JNull
| JBool bool
| JNum number
| JStr jsstring
| JArr "json list"
| JObj "(jsstring \<times> json) list"

text \<open>\<open>!data\<close>\<close>

fun falsy_json :: "json \<Rightarrow> bool" where
  "falsy_json JNull = True"
| "falsy_json (JBool b) = (\<not> b)"
| "falsy_json (JNum n) = (n = 0)"
| "falsy_json (JStr s) = (s = [])"
| "falsy_json (JArr xs) = False"
| "falsy_json (JObj kvs) = False"

text \<open>\<open>typeof data === 'object'\<close>: true of \<open>null\<close>, of arrays and of objects.\<close>

fun typeof_object :: "json \<Rightarrow> bool" where
  "typeof_object JNull = True"
| "typeof_object (JArr xs) = True"
| "typeof_object (JObj kvs) = True"
| "typeof_object (JBool b) = False"
| "typeof_object (JNum n) = False"
| "typeof_object (JStr s) = False"

text \<open>
  \<open>key in obj\<close>, for a key that is no array index, not \<open>length\<close> and not a property
  of \<open>Object.prototype\<close> or \<open>Array.prototype\<close>; the seven required keys are such.
\<close>

fun key_in :: "jsstring \<Rightarrow> json \<Rightarrow> bool" where
  "key_in key (JObj kvs) = (key \<in> set (map fst kvs))"
| "key_in key (JArr xs) = False"
| "key_in key JNull = False"
| "key_in key (JBool b) = False"
| "key_in key (JNum n) = False"
| "key_in key (JStr s) = False"

definition requiredKeys :: "jsstring list" where
  "requiredKeys =
     [js ''metadata'', js ''project_basics'', js ''resource_estimate'', js ''economics'',
      js ''risk_assessment'', js ''investment_analysis'', js ''derived_metrics'']"

text \<open>\<^verbatim>\<open>for (const key of requiredKeys) { if (!(key in obj)) return false; } return true;\<close>\<close>

fun all_keys_in :: "jsstring list \<Rightarrow> json \<Rightarrow> bool" where
  "all_keys_in [] obj = True"
| "all_keys_in (key # keys) obj = (if \<not> key_in key obj then False else all_keys_in keys obj)"

definition validateExtractionResponse :: "json \<Rightarrow> bool" where
  "validateExtractionResponse data =
     (if falsy_json data \<or> \<not> typeof_object data then False
      else all_keys_in requiredKeys data)"

section \<open>Extraction fallback pipeline (lib/claude.ts)\<close>

text \<open>
  A thrown value is an \<open>Error\<close> instance with its message, or some other value with its
  \<open>String(...)\<close> rendering.
\<close>

datatype thrown = ErrorObject jsstring | NonError jsstring

datatype ContentBlock = TextBlock jsstring | NonTextBlock

record Message =
  content :: "ContentBlock list"

text \<open>
  What lies outside the repository: the two requests to the external API, the local text
  extraction of \<open>unpdf\<close> and \<open>JSON.parse\<close>. Each is a function of what the code
  passes to it; the fixed parts of a request (model, token limit, the two prompts) are
  constants and left out, so the text request is a function of the document text sent.
  \<open>extractText\<close> is called with no \<open>mergePages\<close> option, and then its \<open>text\<close> is an
  array with one string for each page.
\<close>

record Services =
  messages_create_document :: "jsstring \<Rightarrow> thrown + Message"
  extractText :: "jsstring \<Rightarrow> thrown + jsstring list"
  messages_create_text :: "jsstring \<Rightarrow> thrown + Message"
  JSON_parse :: "jsstring \<Rightarrow> thrown + json"

text \<open>The external calls a run makes, in order.\<close>

datatype Call = DocumentRequest jsstring | TextExtraction jsstring | TextRequest jsstring

text \<open>Whether a call belongs to the text path, which starts with the local text extraction.\<close>

fun is_text_path_call :: "Call \<Rightarrow> bool" where
  "is_text_path_call (DocumentRequest pdf) = False"
| "is_text_path_call (TextExtraction pdf) = True"
| "is_text_path_call (TextRequest text) = False"

text \<open>\<open>String.prototype.trim\<close> strips white space and line terminators at both ends.\<close>

definition is_whitespace :: "16 word \<Rightarrow> bool" where
  "is_whitespace c =
     (c \<in> {0x09, 0x0A, 0x0B, 0x0C, 0x0D, 0x20, 0xA0, 0x1680, 0x2028, 0x2029, 0x202F,
            0x205F, 0x3000, 0xFEFF} \<or>
      (0x2000 \<le> c \<and> c \<le> 0x200A))"

definition trim :: "jsstring \<Rightarrow> jsstring" where
  "trim s = rev (dropWhile is_whitespace (rev (dropWhile is_whitespace s)))"

text \<open>Three backquotes, the fence of a markdown code block.\<close>

definition fence :: jsstring where
  "fence = [0x60, 0x60, 0x60]"

fun is_text :: "ContentBlock \<Rightarrow> bool" where
  "is_text (TextBlock t) = True"
| "is_text NonTextBlock = False"

definition parseClaudeResponse :: "Services \<Rightarrow> Message \<Rightarrow> thrown + json" where
  "parseClaudeResponse w response =
     (case find is_text (content response) of
        None \<Rightarrow> Inl (ErrorObject (js ''No text response from Claude''))
      | Some NonTextBlock \<Rightarrow> Inl (ErrorObject (js ''No text response from Claude''))
      | Some (TextBlock text) \<Rightarrow>
          (let jsonText = trim text;
               jsonText = (if startsWith jsonText (fence @ js ''json'') then drop 7 jsonText
                           else if startsWith jsonText fence then drop 3 jsonText
                           else jsonText);
               jsonText = (if endsWith jsonText fence
                           then take (length jsonText - 3) jsonText
                           else jsonText);
               jsonText = trim jsonText
           in JSON_parse w jsonText))"

definition maxChars :: nat where
  "maxChars = 150000"

definition truncation_marker :: jsstring where
  "truncation_marker = [0x0A, 0x0A] @ js ''[Document truncated due to length...]''"

text \<open>An array turns into a string by \<open>join(',')\<close>.\<close>

fun join_comma :: "jsstring list \<Rightarrow> jsstring" where
  "join_comma [] = []"
| "join_comma [page] = page"
| "join_comma (page # next_page # pages) = page @ [0x2C] @ join_comma (next_page # pages)"

text \<open>
  \<^verbatim>\<open>pdfText.length > maxChars
    ? pdfText.slice(0, maxChars) + '\n\n[Document truncated due to length...]'
    : pdfText\<close>
  \<open>pdfText\<close> is the array of pages, so \<open>length\<close> is the number of pages and \<open>slice\<close>
  keeps whole pages. The \<open>+\<close> of the first branch, and the template literal the
  result is put into, turn the array into a string.
\<close>

definition truncatedText :: "jsstring list \<Rightarrow> jsstring" where
  "truncatedText pdfText =
     (if length pdfText > maxChars
      then join_comma (take maxChars pdfText) @ truncation_marker
      else join_comma pdfText)"

definition extractFromPdfText :: "Services \<Rightarrow> jsstring \<Rightarrow> (thrown + json) \<times> Call list" where
  "extractFromPdfText w pdfBase64 =
     (case extractText w pdfBase64 of
        Inl error \<Rightarrow> (Inl error, [TextExtraction pdfBase64])
      | Inr pdfText \<Rightarrow>
          (case messages_create_text w (truncatedText pdfText) of
             Inl error \<Rightarrow>
               (Inl error, [TextExtraction pdfBase64, TextRequest (truncatedText pdfText)])
           | Inr response \<Rightarrow>
               (parseClaudeResponse w response,
                [TextExtraction pdfBase64, TextRequest (truncatedText pdfText)])))"

text \<open>The body of the \<open>try\<close> block of \<open>extractFromPdf\<close>: the request and the parse.\<close>

definition native_attempt :: "Services \<Rightarrow> jsstring \<Rightarrow> thrown + json" where
  "native_attempt w pdfBase64 =
     (case messages_create_document w pdfBase64 of
        Inl error \<Rightarrow> Inl error
      | Inr response \<Rightarrow> parseClaudeResponse w response)"

text \<open>\<open>error instanceof Error ? error.message : String(error)\<close>\<close>

fun message_or_string :: "thrown \<Rightarrow> jsstring" where
  "message_or_string (ErrorObject m) = m"
| "message_or_string (NonError s) = s"

text \<open>\<open>errorMsg.includes('100 PDF pages') || errorMsg.includes('maximum')\<close>\<close>

definition size_limit_pattern :: "jsstring \<Rightarrow> bool" where
  "size_limit_pattern errorMsg =
     (includes_str errorMsg (js ''100 PDF pages'') \<or> includes_str errorMsg (js ''maximum''))"

definition extractFromPdf :: "Services \<Rightarrow> jsstring \<Rightarrow> (thrown + json) \<times> Call list" where
  "extractFromPdf w pdfBase64 =
     (case native_attempt w pdfBase64 of
        Inr data \<Rightarrow> (Inr data, [DocumentRequest pdfBase64])
      | Inl error \<Rightarrow>
          (let errorMsg = message_or_string error
           in if size_limit_pattern errorMsg
              then (case extractFromPdfText w pdfBase64 of
                      (result, calls) \<Rightarrow> (result, DocumentRequest pdfBase64 # calls))
              else (Inl error, [DocumentRequest pdfBase64])))"

section \<open>Reading a parsed payload at its declared type\<close>

text \<open>
  \<open>validateExtractionResponse\<close> is a type guard: once it has passed, the route hands the
  parsed value to the transformer as a \<open>ClaudeExtractionResponse\<close> with no conversion.
  The functions of this section read a JSON value the way the transformer's property
  accesses do. \<open>member\<close> is \<open>obj[key]\<close>, \<open>None\<close> standing for \<open>undefined\<close>.
\<close>

fun member :: "json \<Rightarrow> jsstring \<Rightarrow> json option" where
  "member (JObj kvs) key = map_of (rev kvs) key"
| "member (JArr xs) key = None"
| "member JNull key = None"
| "member (JBool b) key = None"
| "member (JNum n) key = None"
| "member (JStr s) key = None"

text \<open>
  A leaf is read at its declared type: \<open>null\<close> and \<open>undefined\<close> give \<open>Some None\<close>, a value
  of the declared type gives \<open>Some (Some v)\<close>, and a value of another type gives \<open>None\<close>:
  such a payload is outside the interface and outside this model.
\<close>

fun read_string :: "json option \<Rightarrow> jsstring option option" where
  "read_string None = Some None"
| "read_string (Some JNull) = Some None"
| "read_string (Some (JStr s)) = Some (Some s)"
| "read_string (Some v) = None"

fun read_number :: "json option \<Rightarrow> number option option" where
  "read_number None = Some None"
| "read_number (Some JNull) = Some None"
| "read_number (Some (JNum n)) = Some (Some n)"
| "read_number (Some v) = None"

fun read_boolean :: "json option \<Rightarrow> bool option option" where
  "read_boolean None = Some None"
| "read_boolean (Some JNull) = Some None"
| "read_boolean (Some (JBool b)) = Some (Some b)"
| "read_boolean (Some v) = None"

fun strings_of :: "json list \<Rightarrow> jsstring list option" where
  "strings_of [] = Some []"
| "strings_of (JStr s # xs) = map_option ((#) s) (strings_of xs)"
| "strings_of (v # xs) = None"

fun read_strings :: "json option \<Rightarrow> jsstring list option option" where
  "read_strings None = Some None"
| "read_strings (Some JNull) = Some None"
| "read_strings (Some (JArr xs)) = map_option Some (strings_of xs)"
| "read_strings (Some v) = None"

definition risk_of :: "jsstring \<Rightarrow> RiskLevel option" where
  "risk_of s =
     (if s = js ''low'' then Some RiskLow
      else if s = js ''moderate'' then Some RiskModerate
      else if s = js ''high'' then Some RiskHigh
      else None)"

definition priority_of :: "jsstring \<Rightarrow> Priority option" where
  "priority_of s =
     (if s = js ''high'' then Some PriorityHigh
      else if s = js ''medium'' then Some PriorityMedium
      else if s = js ''low'' then Some PriorityLow
      else if s = js ''pass'' then Some PriorityPass
      else None)"

definition confidence_of :: "jsstring \<Rightarrow> ResourceConfidence option" where
  "confidence_of s =
     (if s = js ''high'' then Some ConfHigh
      else if s = js ''moderate'' then Some ConfModerate
      else if s = js ''low'' then Some ConfLow
      else None)"

fun read_enum :: "(jsstring \<Rightarrow> 'a option) \<Rightarrow> json option \<Rightarrow> 'a option option" where
  "read_enum of_string None = Some None"
| "read_enum of_string (Some JNull) = Some None"
| "read_enum of_string (Some (JStr s)) = map_option Some (of_string s)"
| "read_enum of_string (Some v) = None"

definition read_Metadata :: "json \<Rightarrow> Metadata option" where
  "read_Metadata sec = do {
     a \<leftarrow> read_string (member sec (js ''issuer_name''));
     b \<leftarrow> read_string (member sec (js ''project_name''));
     c \<leftarrow> read_string (member sec (js ''effective_date''));
     d \<leftarrow> read_string (member sec (js ''report_stage''));
     Some \<lparr> Metadata.issuer_name = a, Metadata.project_name = b,
            Metadata.effective_date = c, Metadata.report_stage = d \<rparr> }"

definition read_ProjectBasics :: "json \<Rightarrow> ProjectBasics option" where
  "read_ProjectBasics sec = do {
     a \<leftarrow> read_string (member sec (js ''primary_commodity''));
     b \<leftarrow> read_strings (member sec (js ''secondary_commodities''));
     c \<leftarrow> read_string (member sec (js ''country''));
     d \<leftarrow> read_string (member sec (js ''province_state''));
     Some \<lparr> ProjectBasics.primary_commodity = a, ProjectBasics.secondary_commodities = b,
            ProjectBasics.country = c, ProjectBasics.province_state = d \<rparr> }"

definition read_ResourceEstimate :: "json \<Rightarrow> ResourceEstimate option" where
  "read_ResourceEstimate sec = do {
     a \<leftarrow> read_number (member sec (js ''total_indicated_mt''));
     b \<leftarrow> read_string (member sec (js ''indicated_avg_grade''));
     c \<leftarrow> read_number (member sec (js ''total_inferred_mt''));
     d \<leftarrow> read_string (member sec (js ''inferred_avg_grade''));
     e \<leftarrow> read_number (member sec (js ''total_measured_mt''));
     f \<leftarrow> read_string (member sec (js ''measured_avg_grade''));
     g \<leftarrow> read_string (member sec (js ''cutoff_grade''));
     h \<leftarrow> read_string (member sec (js ''resource_date''));
     Some \<lparr> ResourceEstimate.total_indicated_mt = a,
            ResourceEstimate.indicated_avg_grade = b,
            ResourceEstimate.total_inferred_mt = c,
            ResourceEstimate.inferred_avg_grade = d,
            ResourceEstimate.total_measured_mt = e,
            ResourceEstimate.measured_avg_grade = f,
            ResourceEstimate.cutoff_grade = g,
            ResourceEstimate.resource_date = h \<rparr> }"

definition read_Economics :: "json \<Rightarrow> Economics option" where
  "read_Economics sec = do {
     a \<leftarrow> read_boolean (member sec (js ''has_economic_study''));
     b \<leftarrow> read_number (member sec (js ''npv_aftertax_musd''));
     c \<leftarrow> read_number (member sec (js ''npv_discount_rate''));
     d \<leftarrow> read_number (member sec (js ''irr_aftertax_percent''));
     e \<leftarrow> read_number (member sec (js ''capex_musd''));
     f \<leftarrow> read_string (member sec (js ''opex_per_unit''));
     g \<leftarrow> read_number (member sec (js ''payback_years''));
     h \<leftarrow> read_number (member sec (js ''mine_life_years''));
     i \<leftarrow> read_string (member sec (js ''commodity_price_assumption''));
     Some \<lparr> Economics.has_economic_study = a, Economics.npv_aftertax_musd = b,
            Economics.npv_discount_rate = c, Economics.irr_aftertax_percent = d,
            Economics.capex_musd = e, Economics.opex_per_unit = f,
            Economics.payback_years = g, Economics.mine_life_years = h,
            Economics.commodity_price_assumption = i \<rparr> }"

definition read_RiskAssessment :: "json \<Rightarrow> RiskAssessment option" where
  "read_RiskAssessment sec = do {
     a \<leftarrow> read_enum risk_of (member sec (js ''metallurgy_risk''));
     b \<leftarrow> read_string (member sec (js ''metallurgy_notes''));
     c \<leftarrow> read_enum risk_of (member sec (js ''permitting_risk''));
     d \<leftarrow> read_string (member sec (js ''permitting_notes''));
     e \<leftarrow> read_enum risk_of (member sec (js ''infrastructure_risk''));
     f \<leftarrow> read_enum risk_of (member sec (js ''geopolitical_risk''));
     Some \<lparr> RiskAssessment.metallurgy_risk = a, RiskAssessment.metallurgy_notes = b,
            RiskAssessment.permitting_risk = c, RiskAssessment.permitting_notes = d,
            RiskAssessment.infrastructure_risk = e, RiskAssessment.geopolitical_risk = f \<rparr> }"

definition read_InvestmentAnalysis :: "json \<Rightarrow> InvestmentAnalysis option" where
  "read_InvestmentAnalysis sec = do {
     a \<leftarrow> read_enum priority_of (member sec (js ''investigation_priority''));
     b \<leftarrow> read_string (member sec (js ''priority_rationale''));
     c \<leftarrow> read_string (member sec (js ''next_catalyst''));
     d \<leftarrow> read_string (member sec (js ''catalyst_timeline''));
     e \<leftarrow> read_strings (member sec (js ''red_flags''));
     f \<leftarrow> read_strings (member sec (js ''positive_signals''));
     g \<leftarrow> read_number (member sec (js ''magellan_score''));
     Some \<lparr> InvestmentAnalysis.investigation_priority = a,
            InvestmentAnalysis.priority_rationale = b,
            InvestmentAnalysis.next_catalyst = c,
            InvestmentAnalysis.catalyst_timeline = d,
            InvestmentAnalysis.red_flags = e,
            InvestmentAnalysis.positive_signals = f,
            InvestmentAnalysis.magellan_score = g \<rparr> }"

text \<open>
  The transformer never reads \<open>derived_metrics\<close>, so whatever that section holds has no
  effect; where it is not of the declared shape it is read as two \<open>null\<close>s.
\<close>

definition read_DerivedMetrics :: "json option \<Rightarrow> DerivedMetrics" where
  "read_DerivedMetrics sec =
     (case sec of
        None \<Rightarrow> \<lparr> indicated_inferred_ratio = None, DerivedMetrics.resource_confidence = None \<rparr>
      | Some v \<Rightarrow>
          (case (read_number (member v (js ''indicated_inferred_ratio'')),
                 read_enum confidence_of (member v (js ''resource_confidence''))) of
             (Some a, Some b) \<Rightarrow>
               \<lparr> indicated_inferred_ratio = a, DerivedMetrics.resource_confidence = b \<rparr>
           | _ \<Rightarrow> \<lparr> indicated_inferred_ratio = None,
                    DerivedMetrics.resource_confidence = None \<rparr>))"

definition as_ClaudeExtractionResponse :: "json \<Rightarrow> ClaudeExtractionResponse option" where
  "as_ClaudeExtractionResponse data = do {
     m \<leftarrow> Option.bind (member data (js ''metadata'')) read_Metadata;
     p \<leftarrow> Option.bind (member data (js ''project_basics'')) read_ProjectBasics;
     r \<leftarrow> Option.bind (member data (js ''resource_estimate'')) read_ResourceEstimate;
     e \<leftarrow> Option.bind (member data (js ''economics'')) read_Economics;
     k \<leftarrow> Option.bind (member data (js ''risk_assessment'')) read_RiskAssessment;
     i \<leftarrow> Option.bind (member data (js ''investment_analysis'')) read_InvestmentAnalysis;
     Some \<lparr> metadata = m, project_basics = p, resource_estimate = r, economics = e,
            risk_assessment = k, investment_analysis = i,
            derived_metrics = read_DerivedMetrics (member data (js ''derived_metrics'')) \<rparr> }"

text \<open>
  Reading a property of \<open>null\<close> or \<open>undefined\<close> throws a \<open>TypeError\<close>. The transformer
  reads \<open>resource_estimate\<close> first, then the sections in the order of the record; the
  result is the property whose read throws, if any.
\<close>

definition section_reads :: "(jsstring \<times> jsstring) list" where
  "section_reads =
     [(js ''resource_estimate'', js ''total_indicated_mt''),
      (js ''metadata'', js ''issuer_name''),
      (js ''project_basics'', js ''primary_commodity''),
      (js ''economics'', js ''has_economic_study''),
      (js ''risk_assessment'', js ''metallurgy_risk''),
      (js ''investment_analysis'', js ''investigation_priority'')]"

fun nullish :: "json option \<Rightarrow> bool" where
  "nullish None = True"
| "nullish (Some JNull) = True"
| "nullish (Some v) = False"

definition throwing_read :: "json \<Rightarrow> jsstring option" where
  "throwing_read data =
     map_option snd (find (\<lambda>(sec, prop). nullish (member data sec)) section_reads)"

section \<open>The table and its row-level policies (supabase/schema.sql)\<close>

text \<open>
  All four policies of \<open>extractions\<close> have the expression \<open>auth.uid() = user_id\<close>;
  \<open>auth.uid()\<close> is \<open>NULL\<close> for a caller with no session, and then the comparison is not
  true. A policy hides the rows that fail it: a \<open>SELECT\<close>, \<open>UPDATE\<close> or \<open>DELETE\<close> runs
  on the rows that pass and raises nothing for the others. A new row that fails the
  check of \<open>INSERT\<close> or \<open>UPDATE\<close> is an error.
\<close>

definition own_row :: "jsstring option \<Rightarrow> 'a ExtractionInsert_scheme \<Rightarrow> bool" where
  "own_row uid row = (uid = Some (user_id row))"

datatype PostgrestError = NoSingleRow | RowSecurityViolation | ConstraintViolation

text \<open>\<open>.single()\<close>: the one row of the result, an error for any other number of rows.\<close>

fun single :: "'a list \<Rightarrow> PostgrestError + 'a" where
  "single [row] = Inr row"
| "single rows = Inl NoSingleRow"

text \<open>
  What the platform supplies: the session, the request body (\<open>storagePath\<close> and
  \<open>originalFilename\<close>, \<open>None\<close> when absent), the stored file as base64 (\<open>None\<close> when the
  download fails), its public URL, the message of the \<open>TypeError\<close> for a property read
  on \<open>null\<close>, the column types and \<open>CHECK\<close> constraints of the table, and the defaults
  \<open>gen_random_uuid()\<close> and \<open>NOW()\<close> of a new row.
\<close>

record Platform =
  auth_getUser :: "jsstring option"
  request_json :: "thrown + (jsstring option \<times> jsstring option)"
  storage_download :: "jsstring \<Rightarrow> jsstring option"
  storage_getPublicUrl :: "jsstring \<Rightarrow> jsstring"
  null_read_message :: "jsstring \<Rightarrow> jsstring"
  column_checks :: "ExtractionInsert \<Rightarrow> bool"
  gen_random_uuid :: jsstring
  NOW :: jsstring

text \<open>\<open>.from('extractions').insert(extraction).select().single()\<close>\<close>

definition insert_single ::
  "Platform \<Rightarrow> jsstring option \<Rightarrow> ExtractionInsert \<Rightarrow> Extraction list \<Rightarrow>
   PostgrestError + (Extraction \<times> Extraction list)" where
  "insert_single pf uid extraction tbl =
     (if \<not> own_row uid extraction then Inl RowSecurityViolation
      else if \<not> column_checks pf extraction \<or>
              gen_random_uuid pf \<in> set (map Extraction.id tbl)
      then Inl ConstraintViolation
      else (let row = ExtractionInsert.extend extraction
                        \<lparr> Extraction.id = gen_random_uuid pf, created_at = NOW pf \<rparr>
            in Inr (row, tbl @ [row])))"

section \<open>Persistence gateway (lib/supabase.ts)\<close>

text \<open>
  Each helper takes the caller's \<open>auth.uid()\<close> and the table, and returns its result
  with the table afterwards. \<open>id\<close> is the primary key, so at most one row has a given id.
\<close>

definition getExtraction ::
  "jsstring option \<Rightarrow> Extraction list \<Rightarrow> jsstring \<Rightarrow> Extraction option" where
  "getExtraction uid tbl i =
     (case single (filter (\<lambda>row. own_row uid row \<and> Extraction.id row = i) tbl) of
        Inl error \<Rightarrow> None
      | Inr data \<Rightarrow> Some data)"

text \<open>
  \<open>updates\<close> is a \<open>Partial<ExtractionInsert>\<close>: it assigns some of the columns and can
  touch neither \<open>id\<close> nor \<open>created_at\<close>.
\<close>

definition apply_updates :: "(ExtractionInsert \<Rightarrow> ExtractionInsert) \<Rightarrow> Extraction \<Rightarrow> Extraction" where
  "apply_updates updates row =
     ExtractionInsert.extend (updates (ExtractionInsert.truncate row)) (ExtractionInsert.more row)"

definition updateExtraction ::
  "Platform \<Rightarrow> jsstring option \<Rightarrow> Extraction list \<Rightarrow> jsstring \<Rightarrow>
   (ExtractionInsert \<Rightarrow> ExtractionInsert) \<Rightarrow> (PostgrestError + Extraction) \<times> Extraction list" where
  "updateExtraction pf uid tbl i updates =
     (let targets = filter (\<lambda>row. own_row uid row \<and> Extraction.id row = i) tbl;
          changed = map (apply_updates updates) targets
      in if list_ex (\<lambda>row. \<not> own_row uid row) changed then (Inl RowSecurityViolation, tbl)
         else if list_ex (\<lambda>row. \<not> column_checks pf (ExtractionInsert.truncate row)) changed
         then (Inl ConstraintViolation, tbl)
         else (case single changed of
                 Inl error \<Rightarrow> (Inl error, tbl)
               | Inr data \<Rightarrow>
                   (Inr data,
                    map (\<lambda>row. if own_row uid row \<and> Extraction.id row = i
                                then apply_updates updates row else row) tbl)))"

definition deleteExtraction ::
  "jsstring option \<Rightarrow> Extraction list \<Rightarrow> jsstring \<Rightarrow> (PostgrestError + bool) \<times> Extraction list" where
  "deleteExtraction uid tbl i =
     (Inr True, filter (\<lambda>row. \<not> (own_row uid row \<and> Extraction.id row = i)) tbl)"

section \<open>The extraction route (app/api/extract/route.ts)\<close>

datatype Body = ErrorBody jsstring | RowBody Extraction

datatype HttpResponse = NextResponse_json Body nat

text \<open>The stages of the pipeline a request went through, in order.\<close>

datatype Stage = Extract | Validate | Transform | Insert

text \<open>\<open>storagePath.split('/').pop()\<close>: what follows the last slash.\<close>

definition last_segment :: "jsstring \<Rightarrow> jsstring" where
  "last_segment s = rev (takeWhile (\<lambda>c. c \<noteq> 0x2F) (rev s))"

text \<open>\<open>originalFilename || storagePath.split('/').pop() || 'document.pdf'\<close>\<close>

definition fileName_of :: "jsstring option \<Rightarrow> jsstring \<Rightarrow> jsstring" where
  "fileName_of originalFilename storagePath =
     (case originalFilename of
        Some name \<Rightarrow>
          if name \<noteq> [] then name
          else if last_segment storagePath \<noteq> [] then last_segment storagePath
          else js ''document.pdf''
      | None \<Rightarrow>
          if last_segment storagePath \<noteq> [] then last_segment storagePath
          else js ''document.pdf'')"

text \<open>The \<open>catch\<close> block of the route.\<close>

definition error_response :: "thrown \<Rightarrow> HttpResponse" where
  "error_response error =
     (let errorMessage = (case error of ErrorObject m \<Rightarrow> m
                          | NonError v \<Rightarrow> js ''Extraction failed'')
      in if includes_str errorMessage (js ''rate_limit'') \<or> includes_str errorMessage (js ''429'')
         then NextResponse_json (ErrorBody
                (js ''Claude API rate limit reached. Please try again in a few minutes.'')) 429
         else if includes_str errorMessage (js ''authentication'') \<or>
                 includes_str errorMessage (js ''401'')
         then NextResponse_json (ErrorBody
                (js ''API authentication error. Please contact support.'')) 401
         else if includes_str errorMessage (js ''overloaded'') \<or>
                 includes_str errorMessage (js ''503'')
         then NextResponse_json (ErrorBody
                (js ''Claude API is temporarily overloaded. Please try again shortly.'')) 503
         else if includes_str errorMessage (js ''too large'') \<or>
                 includes_str errorMessage (js ''413'') \<or>
                 includes_str errorMessage (js ''entity'')
         then NextResponse_json (ErrorBody
                (js ''PDF file is too large. Try a smaller file or a PDF with fewer pages.'')) 413
         else if includes_str errorMessage (js ''could not extract'') \<or>
                 includes_str errorMessage (js ''corrupted'')
         then NextResponse_json (ErrorBody errorMessage) 422
         else if includes_str errorMessage (js ''timeout'') \<or>
                 includes_str errorMessage (js ''TIMEOUT'')
         then NextResponse_json (ErrorBody
                (js ''Request timed out. The PDF may be too complex. Try a smaller file.'')) 504
         else NextResponse_json (ErrorBody errorMessage) 500)"

text \<open>
  A run of the route returns the response, the table afterwards and the stages it went
  through. \<open>OutsideInterface\<close> marks the one case this model does not follow: a payload
  that passes the validation and holds a value of another type than the interface
  declares.
\<close>

datatype 'a run = Returns 'a | OutsideInterface

text \<open>
  From the validation to the end of the \<open>try\<close> block: validate, transform, insert.
\<close>

definition validate_transform_insert ::
  "Platform \<Rightarrow> jsstring \<Rightarrow> jsstring \<Rightarrow> jsstring \<Rightarrow> json \<Rightarrow> Extraction list \<Rightarrow>
   (HttpResponse \<times> Extraction list \<times> Stage list) run" where
  "validate_transform_insert pf userId fileName publicUrl extractedData tbl =
     (if \<not> validateExtractionResponse extractedData
      then Returns (NextResponse_json
             (ErrorBody (js ''Invalid extraction response from AI'')) 500,
             tbl, [Extract, Validate])
      else (case throwing_read extractedData of
              Some prop \<Rightarrow>
                Returns (error_response (ErrorObject (null_read_message pf prop)),
                         tbl, [Extract, Validate, Transform])
            | None \<Rightarrow>
                (case as_ClaudeExtractionResponse extractedData of
                   None \<Rightarrow> OutsideInterface
                 | Some response \<Rightarrow>
                     (let extraction = transformClaudeResponseToExtraction
                                         response userId fileName publicUrl
                      in case insert_single pf (Some userId) extraction tbl of
                           Inl insertError \<Rightarrow>
                             Returns (NextResponse_json
                               (ErrorBody (js ''Failed to save extraction'')) 500,
                               tbl, [Extract, Validate, Transform, Insert])
                         | Inr (insertedData, tbl') \<Rightarrow>
                             Returns (NextResponse_json (RowBody insertedData) 200,
                               tbl', [Extract, Validate, Transform, Insert])))))"

definition POST ::
  "Services \<Rightarrow> Platform \<Rightarrow> Extraction list \<Rightarrow>
   (HttpResponse \<times> Extraction list \<times> Stage list) run" where
  "POST w pf tbl =
     (case auth_getUser pf of
        None \<Rightarrow> Returns (NextResponse_json (ErrorBody (js ''Unauthorized'')) 401, tbl, [])
      | Some userId \<Rightarrow>
          (case request_json pf of
             Inl error \<Rightarrow> Returns (error_response error, tbl, [])
           | Inr (body_storagePath, originalFilename) \<Rightarrow>
               (case body_storagePath of
                  None \<Rightarrow> Returns (NextResponse_json
                            (ErrorBody (js ''No storage path provided'')) 400, tbl, [])
                | Some storagePath \<Rightarrow>
                    if storagePath = []
                    then Returns (NextResponse_json
                           (ErrorBody (js ''No storage path provided'')) 400, tbl, [])
                    else if \<not> startsWith storagePath (userId @ js ''/'')
                    then Returns (NextResponse_json
                           (ErrorBody (js ''Unauthorized access to file'')) 403, tbl, [])
                    else (case storage_download pf storagePath of
                            None \<Rightarrow> Returns (NextResponse_json
                              (ErrorBody (js ''Failed to download file from storage'')) 500,
                              tbl, [])
                          | Some base64 \<Rightarrow>
                              (let publicUrl = storage_getPublicUrl pf storagePath;
                                   fileName = fileName_of originalFilename storagePath
                               in case fst (extractFromPdf w base64) of
                                    Inl error \<Rightarrow> Returns (error_response error, tbl, [Extract])
                                  | Inr extractedData \<Rightarrow>
                                      validate_transform_insert pf userId fileName publicUrl
                                        extractedData tbl)))))"

section \<open>Sample data\<close>

text \<open>A response, and the record the transformer makes of it, for the examples below.\<close>

definition sample_response :: ClaudeExtractionResponse where
  "sample_response =
     \<lparr> metadata = \<lparr> Metadata.issuer_name = Some (js ''Acme Lithium''),
                     Metadata.project_name = Some (js ''Salar Norte''),
                     Metadata.effective_date = Some (js ''2025-01-31''),
                     Metadata.report_stage = Some (js ''PEA'') \<rparr>,
       project_basics = \<lparr> ProjectBasics.primary_commodity = Some (js ''lithium''),
                           ProjectBasics.secondary_commodities = Some [],
                           ProjectBasics.country = Some (js ''Canada''),
                           ProjectBasics.province_state = None \<rparr>,
       resource_estimate = \<lparr> ResourceEstimate.total_indicated_mt = Some 10,
                              ResourceEstimate.indicated_avg_grade = None,
                              ResourceEstimate.total_inferred_mt = Some 4,
                              ResourceEstimate.inferred_avg_grade = None,
                              ResourceEstimate.total_measured_mt = None,
                              ResourceEstimate.measured_avg_grade = None,
                              ResourceEstimate.cutoff_grade = None,
                              ResourceEstimate.resource_date = None \<rparr>,
       economics = \<lparr> Economics.has_economic_study = Some True,
                      Economics.npv_aftertax_musd = Some 350,
                      Economics.npv_discount_rate = Some 8,
                      Economics.irr_aftertax_percent = None,
                      Economics.capex_musd = None,
                      Economics.opex_per_unit = None,
                      Economics.payback_years = None,
                      Economics.mine_life_years = None,
                      Economics.commodity_price_assumption = None \<rparr>,
       risk_assessment = \<lparr> RiskAssessment.metallurgy_risk = Some RiskHigh,
                            RiskAssessment.metallurgy_notes = None,
                            RiskAssessment.permitting_risk = Some RiskLow,
                            RiskAssessment.permitting_notes = None,
                            RiskAssessment.infrastructure_risk = Some RiskModerate,
                            RiskAssessment.geopolitical_risk = Some RiskLow \<rparr>,
       investment_analysis = \<lparr> InvestmentAnalysis.investigation_priority = Some PriorityHigh,
                                InvestmentAnalysis.priority_rationale = None,
                                InvestmentAnalysis.next_catalyst = None,
                                InvestmentAnalysis.catalyst_timeline = None,
                                InvestmentAnalysis.red_flags = Some [],
                                InvestmentAnalysis.positive_signals = Some [],
                                InvestmentAnalysis.magellan_score = Some 7 \<rparr>,
       derived_metrics = \<lparr> indicated_inferred_ratio = Some 99,
                            DerivedMetrics.resource_confidence = Some ConfLow \<rparr> \<rparr>"

definition sample_extraction :: ExtractionInsert where
  "sample_extraction =
     transformClaudeResponseToExtraction sample_response (js ''u1'') (js ''report.pdf'')
       (js ''https://files/u1/report.pdf'')"

text \<open>
  Services whose document request fails with the page-limit error and whose text request
  answers with a fenced empty object; \<open>JSON.parse\<close> accepts \<open>{}\<close> and fails otherwise
  with a message of the form V8 gives for a short text, which quotes the text. Then the
  same with a rate-limit error, with a document reply that is no JSON, and with a
  document of one page of 150001 code units and a text request that refuses a text of
  more than 150000.
\<close>

definition sample_services :: Services where
  "sample_services =
     \<lparr> messages_create_document =
         (\<lambda>pdf. Inl (ErrorObject (js ''A maximum of 100 PDF pages may be provided.''))),
       extractText = (\<lambda>pdf. Inr [js ''NI 43-101 Technical Report'']),
       messages_create_text =
         (\<lambda>text. Inr \<lparr> content =
            [NonTextBlock, TextBlock (fence @ js ''json'' @ [0x0A] @ js ''{}'' @ [0x0A] @ fence)] \<rparr>),
       JSON_parse =
         (\<lambda>s. if s = js ''{}'' then Inr (JObj [])
              else Inl (ErrorObject
                (js ''Unexpected token '' @ [0x27] @ take 1 s @ [0x27] @ js '', '' @ [0x22] @
                 take 10 s @ [0x22] @ js '' is not valid JSON''))) \<rparr>"

definition rate_limited_services :: Services where
  "rate_limited_services =
     sample_services \<lparr> messages_create_document :=
       (\<lambda>pdf. Inl (ErrorObject (js ''429 rate_limit_error''))) \<rparr>"

definition long_text_services :: Services where
  "long_text_services =
     sample_services
       \<lparr> extractText := (\<lambda>pdf. Inr [replicate 150001 0x41]),
         messages_create_text :=
           (\<lambda>text. if length text > 150000
                    then Inl (ErrorObject (js ''prompt is too long''))
                    else messages_create_text sample_services text) \<rparr>"

definition malformed_reply_services :: Services where
  "malformed_reply_services =
     sample_services \<lparr> messages_create_document :=
       (\<lambda>pdf. Inr \<lparr> content = [TextBlock (js ''maximum'')] \<rparr>) \<rparr>"

text \<open>A platform with a session of user \<open>u1\<close>, and a stored row of that user.\<close>

definition sample_platform :: Platform where
  "sample_platform =
     \<lparr> auth_getUser = Some (js ''u1''),
       request_json = Inr (Some (js ''u1/1738324800000-k3x9.pdf''), Some (js ''report.pdf'')),
       storage_download = (\<lambda>path. Some (js ''JVBERi0='')),
       storage_getPublicUrl = (\<lambda>path. js ''https://files/'' @ path),
       null_read_message = (\<lambda>prop. js ''Cannot read properties of null''),
       column_checks = (\<lambda>extraction. True),
       gen_random_uuid = js ''r2'',
       NOW = js ''2025-01-31T12:05:00Z'' \<rparr>"

definition sample_row :: Extraction where
  "sample_row =
     ExtractionInsert.extend sample_extraction
       \<lparr> Extraction.id = js ''r1'', created_at = js ''2025-01-31T12:00:00Z'' \<rparr>"

section \<open>Properties of the derived-metrics calculator\<close>

lemma toFixed2_nonneg_rounded:
  assumes "0 \<le> x"
  shows "rounded_2dp x (toFixed2 x)"
proof -
  define n where "n = \<lfloor>x * 100 + 1 / 2\<rfloor>"
  have r: "toFixed2 x = of_int n / 100"
    using assms by (simp add: toFixed2_def n_def)
  have lo: "of_int n \<le> x * 100 + 1 / 2"
    unfolding n_def by (rule of_int_floor_le)
  have hi: "x * 100 + 1 / 2 < of_int n + 1"
    using floor_correct [of "x * 100 + 1 / 2"] by (simp add: n_def)
  have up: "of_int n / 100 - x \<le> 1 / 200"
    using lo by (simp add: field_simps)
  have down: "x - of_int n / 100 \<le> 1 / 200"
    using hi by (simp add: field_simps)
  have "\<bar>of_int n / 100 - x\<bar> \<le> 1 / 200"
    using up down by linarith
  then show ?thesis
    by (simp add: rounded_2dp_def r)
qed

lemma toFixed2_minus:
  "x \<noteq> 0 \<Longrightarrow> toFixed2 (- x) = - toFixed2 x"
  by (simp add: toFixed2_def)

lemma rounded_2dp_minus:
  "rounded_2dp q r \<Longrightarrow> rounded_2dp (- q) (- r)"
proof -
  assume a: "rounded_2dp q r"
  then have i: "r * 100 = of_int \<lfloor>r * 100\<rfloor>" and d: "\<bar>r - q\<bar> \<le> 1 / 200"
    by (simp_all add: rounded_2dp_def)
  have "- r * 100 = of_int (- \<lfloor>r * 100\<rfloor>)"
    using i by simp
  then have "- r * 100 = of_int \<lfloor>- r * 100\<rfloor>"
    by (metis floor_of_int)
  moreover have "\<bar>- r - - q\<bar> \<le> 1 / 200"
    using d by (simp add: abs_minus_commute)
  ultimately show ?thesis
    by (simp add: rounded_2dp_def)
qed

lemma toFixed2_rounded: "rounded_2dp x (toFixed2 x)"
proof (cases "0 \<le> x")
  case True
  then show ?thesis by (rule toFixed2_nonneg_rounded)
next
  case False
  then have "rounded_2dp (- x) (toFixed2 (- x))"
    by (intro toFixed2_nonneg_rounded) simp
  then have "rounded_2dp (- (- x)) (- toFixed2 (- x))"
    by (rule rounded_2dp_minus)
  moreover have "toFixed2 (- x) = - toFixed2 x"
    using False by (intro toFixed2_minus) auto
  ultimately show ?thesis by simp
qed

text \<open>The rounding to a double is off by at most one part in \<open>2\<^sup>5\<^sup>3\<close>.\<close>

lemma round_half_even_error: "\<bar>of_int (round_half_even s) - s\<bar> \<le> 1 / 2"
proof -
  have lo: "of_int \<lfloor>s\<rfloor> \<le> s" by (rule of_int_floor_le)
  have hi: "s < of_int \<lfloor>s\<rfloor> + 1" using floor_correct [of s] by simp
  show ?thesis
    using lo hi by (auto simp: round_half_even_def Let_def)
qed

lemma ilog2_bounds:
  assumes "0 < x"
  shows "2 powi ilog2 x \<le> x \<and> x < 2 powi (ilog2 x + 1)"
proof (cases "1 \<le> x")
  case True
  define m where "m = \<lfloor>x\<rfloor>"
  have m1: "1 \<le> m" using True by (simp add: m_def)
  then have m0: "0 < m" by simp
  have b1: "1 \<le> bitlen m" using m0 by (simp add: bitlen_alt_def)
  from bitlen_bounds [OF m0]
  have lo: "2 ^ nat (bitlen m - 1) \<le> m" and hi: "m < 2 ^ nat (bitlen m)" by simp_all
  have "(of_int (2 ^ nat (bitlen m - 1)) :: rat) \<le> of_int m"
    using lo by (simp only: of_int_le_iff)
  also have "\<dots> \<le> x" unfolding m_def by (rule of_int_floor_le)
  finally have l: "(2::rat) ^ nat (bitlen m - 1) \<le> x" by simp
  have "m + 1 \<le> 2 ^ nat (bitlen m)" using hi by simp
  then have "(of_int (m + 1) :: rat) \<le> of_int (2 ^ nat (bitlen m))"
    by (simp only: of_int_le_iff)
  moreover have "x < of_int (m + 1)"
    using floor_correct [of x] by (simp add: m_def)
  ultimately have h: "x < (2::rat) ^ nat (bitlen m)" by simp
  have k: "ilog2 x = bitlen m - 1" using True by (simp add: ilog2_def m_def)
  show ?thesis
    using l h b1 by (simp add: k power_int_def)
next
  case False
  define y where "y = 1 / x"
  define d where "d = \<lceil>y\<rceil> - 1"
  have y1: "1 < y" using False assms by (simp add: y_def)
  have d1: "1 \<le> d" using y1 by (simp add: d_def less_ceiling_iff)
  then have d0: "0 < d" by simp
  have b1: "1 \<le> bitlen d" using d0 by (simp add: bitlen_alt_def)
  from bitlen_bounds [OF d0]
  have lo: "2 ^ nat (bitlen d - 1) \<le> d" and hi: "d < 2 ^ nat (bitlen d)" by simp_all
  have "(of_int (2 ^ nat (bitlen d - 1)) :: rat) \<le> of_int d"
    using lo by (simp only: of_int_le_iff)
  also have "\<dots> < y" unfolding d_def using ceiling_correct [of y] by simp
  finally have l: "(2::rat) ^ nat (bitlen d - 1) < y" by simp
  have "d + 1 \<le> 2 ^ nat (bitlen d)" using hi by simp
  then have "(of_int (d + 1) :: rat) \<le> of_int (2 ^ nat (bitlen d))"
    by (simp only: of_int_le_iff)
  moreover have "y \<le> of_int (d + 1)"
    unfolding d_def using ceiling_correct [of y] by simp
  ultimately have h: "y \<le> (2::rat) ^ nat (bitlen d)" by simp
  have k: "ilog2 x = - bitlen d" using False by (simp add: ilog2_def d_def y_def)
  have x: "x = 1 / y" using assms by (simp add: y_def)
  have ypos: "0 < y" using y1 by simp
  have p1: "1 / (2::rat) ^ nat (bitlen d) \<le> x"
    unfolding x using h ypos by (simp add: frac_le)
  have p2: "x < 1 / (2::rat) ^ nat (bitlen d - 1)"
    unfolding x using l by (simp add: frac_less2)
  show ?thesis
  proof (cases "bitlen d = 1")
    case True
    then show ?thesis using p1 p2 by (simp add: k power_int_def)
  next
    case False
    then have "2 \<le> bitlen d" using b1 by simp
    moreover then have "nat (bitlen d - 1) = nat (bitlen d) - 1" by simp
    ultimately show ?thesis using p1 p2
      by (simp add: k power_int_def inverse_eq_divide nat_diff_distrib power_one_over)
  qed
qed

lemma to_double_error: "\<bar>to_double x - x\<bar> \<le> \<bar>x\<bar> / 2 ^ 53"
proof (cases "x = 0")
  case True
  then show ?thesis by (simp add: to_double_def)
next
  case False
  define a where "a = \<bar>x\<bar>"
  define e where "e = ilog2 a - 52"
  define p :: rat where "p = 2 powi e"
  define r where "r = round_half_even (a / p)"
  have a0: "0 < a" using False by (simp add: a_def)
  have p0: "0 < p" by (simp add: p_def zero_less_power_int)
  have td: "to_double x = sgn x * of_int r * p"
    using False by (simp add: to_double_def Let_def a_def e_def p_def r_def)
  have xs: "x = sgn x * a" by (simp add: a_def sgn_mult_abs)
  have "to_double x - x = sgn x * (of_int r * p - a)"
    by (subst (2) xs) (simp add: td algebra_simps)
  then have "\<bar>to_double x - x\<bar> = \<bar>of_int r * p - a\<bar>"
    using False by (simp add: abs_mult abs_sgn_eq)
  also have "of_int r * p - a = (of_int r - a / p) * p"
    using p0 by (simp add: field_simps)
  also have "\<bar>(of_int r - a / p) * p\<bar> = \<bar>of_int r - a / p\<bar> * p"
    using p0 by (simp add: abs_mult)
  also have "\<dots> \<le> 1 / 2 * p"
    using round_half_even_error [of "a / p"] p0 unfolding r_def
    by (intro mult_right_mono) simp_all
  also have "p = 2 powi ilog2 a / 2 ^ 52"
    unfolding p_def e_def by (simp add: power_int_diff)
  also have "1 / 2 * (2 powi ilog2 a / 2 ^ 52) \<le> 1 / 2 * (a / 2 ^ 52)"
    using ilog2_bounds [OF a0] by (simp add: divide_right_mono)
  also have "\<dots> = a / 2 ^ 53" by simp
  finally show ?thesis by (simp add: a_def)
qed

text \<open>Some quotients, evaluated.\<close>

lemma computeIndInfRatio_10_4: "computeIndInfRatio (Some 10) (Some 4) = Some (5 / 2)"
  by code_simp

lemma computeIndInfRatio_123_200:
  "computeIndInfRatio (Some 123) (Some 200) = Some (to_double (61 / 100))"
  by code_simp

lemma toFixed2_7_3: "toFixed2 (to_double (7 / 3)) = 233 / 100"
  by code_simp

text \<open>
  Claim C1, as the code has it. \<open>computeIndInfRatio\<close> returns \<open>null\<close> exactly when the
  indicated tonnage is \<open>null\<close> or \<open>0\<close> or the inferred tonnage is \<open>null\<close> or \<open>0\<close>.
  Otherwise it returns the quotient of the two doubles rounded to two decimal places by
  \<open>toFixed\<close>: the quotient is the double next to indicated / inferred, within one part
  in \<open>2\<^sup>5\<^sup>3\<close> of it; the decimal is the multiple of \<open>0.01\<close> at distance at most \<open>0.005\<close>
  from that double; the result is the double that decimal reads as. So \<open>(10, 4)\<close>
  gives \<open>2.50\<close>, \<open>(5, 0)\<close> gives \<open>null\<close>, and \<open>(123, 200)\<close>, whose double quotient lies
  just below \<open>0.615\<close>, gives \<open>0.61\<close>.
\<close>

theorem computeIndInfRatio_spec:
  "(computeIndInfRatio indicated inferred = None \<longleftrightarrow>
      indicated = None \<or> indicated = Some 0 \<or> inferred = None \<or> inferred = Some 0) \<and>
   (\<forall>i f. indicated = Some i \<and> inferred = Some f \<and> i \<noteq> 0 \<and> f \<noteq> 0 \<longrightarrow>
      computeIndInfRatio indicated inferred =
        Some (to_double (toFixed2 (to_double (i / f)))) \<and>
      rounded_2dp (to_double (i / f)) (toFixed2 (to_double (i / f))) \<and>
      \<bar>to_double (i / f) - i / f\<bar> \<le> \<bar>i / f\<bar> / 2 ^ 53) \<and>
   computeIndInfRatio (Some 10) (Some 4) = Some (5 / 2) \<and>
   computeIndInfRatio (Some 5) (Some 0) = None \<and>
   computeIndInfRatio (Some 123) (Some 200) = Some (to_double (61 / 100))"
proof (intro conjI allI impI)
  show "computeIndInfRatio indicated inferred = None \<longleftrightarrow>
      indicated = None \<or> indicated = Some 0 \<or> inferred = None \<or> inferred = Some 0"
    by (cases indicated; cases inferred) (auto simp: computeIndInfRatio_def)
next
  fix i f
  assume "indicated = Some i \<and> inferred = Some f \<and> i \<noteq> 0 \<and> f \<noteq> 0"
  then show "computeIndInfRatio indicated inferred =
      Some (to_double (toFixed2 (to_double (i / f))))"
    by (simp add: computeIndInfRatio_def)
next
  fix i f :: number
  show "rounded_2dp (to_double (i / f)) (toFixed2 (to_double (i / f)))"
    by (rule toFixed2_rounded)
next
  fix i f :: number
  show "\<bar>to_double (i / f) - i / f\<bar> \<le> \<bar>i / f\<bar> / 2 ^ 53"
    by (rule to_double_error)
next
  show "computeIndInfRatio (Some 10) (Some 4) = Some (5 / 2)"
    by (rule computeIndInfRatio_10_4)
next
  show "computeIndInfRatio (Some 5) (Some 0) = None"
    by (simp add: computeIndInfRatio_def)
next
  show "computeIndInfRatio (Some 123) (Some 200) = Some (to_double (61 / 100))"
    by (rule computeIndInfRatio_123_200)
qed

theorem computeIndInfRatio_spec_witness:
  "computeIndInfRatio (Some 7) (Some 3) = Some (to_double (233 / 100)) \<and>
   rounded_2dp (to_double (7 / 3)) (233 / 100) \<and>
   \<bar>to_double (7 / 3) - 7 / 3\<bar> \<le> \<bar>(7::rat) / 3\<bar> / 2 ^ 53"
  using computeIndInfRatio_spec [of "Some 7" "Some 3"]
  by (simp add: toFixed2_7_3)

text \<open>
  Claim C1 as the specification words it fails: with an indicated tonnage of \<open>0\<close> and an
  inferred tonnage of \<open>4\<close> neither input is \<open>null\<close> and the inferred tonnage is not \<open>0\<close>,
  yet the result is \<open>null\<close>.
\<close>

theorem computeIndInfRatio_zero_indicated_counterexample:
  "computeIndInfRatio (Some 0) (Some 4) = None \<and>
   \<not> ((Some 0 :: number option) = None \<or> (Some 4 :: number option) = None \<or>
      (Some 4 :: number option) = Some 0)"
  by (simp add: computeIndInfRatio_def)

text \<open>
  Claim C3. \<open>computeResourceConfidence\<close> returns \<open>null\<close> for a \<open>null\<close> ratio, \<open>high\<close>
  above \<open>2\<close>, \<open>moderate\<close> from \<open>0.5\<close> to \<open>2\<close> inclusive and \<open>low\<close> below \<open>0.5\<close>; so
  \<open>2.0\<close> and \<open>0.5\<close> are \<open>moderate\<close>, \<open>2.01\<close> is \<open>high\<close> and \<open>0.49\<close> is \<open>low\<close>.
\<close>

theorem computeResourceConfidence_spec:
  "computeResourceConfidence None = None \<and>
   (r > 2 \<longrightarrow> computeResourceConfidence (Some r) = Some ConfHigh) \<and>
   (1 / 2 \<le> r \<and> r \<le> 2 \<longrightarrow> computeResourceConfidence (Some r) = Some ConfModerate) \<and>
   (r < 1 / 2 \<longrightarrow> computeResourceConfidence (Some r) = Some ConfLow) \<and>
   computeResourceConfidence (Some 2) = Some ConfModerate \<and>
   computeResourceConfidence (Some (201 / 100)) = Some ConfHigh \<and>
   computeResourceConfidence (Some (1 / 2)) = Some ConfModerate \<and>
   computeResourceConfidence (Some (49 / 100)) = Some ConfLow"
  by (simp add: computeResourceConfidence_def)

theorem computeResourceConfidence_spec_witness:
  "((3::number) > 2 \<and> computeResourceConfidence (Some 3) = Some ConfHigh) \<and>
   ((1::number) / 2 \<le> 1 \<and> (1::number) \<le> 2 \<and>
      computeResourceConfidence (Some 1) = Some ConfModerate) \<and>
   ((1::number) / 4 < 1 / 2 \<and> computeResourceConfidence (Some (1 / 4)) = Some ConfLow)"
  using computeResourceConfidence_spec [of 3] computeResourceConfidence_spec [of 1]
    computeResourceConfidence_spec [of "1 / 4"]
  by simp

section \<open>Properties of the status classifier and the transformer\<close>

text \<open>
  Claim C2. \<open>computeStatus\<close> returns exactly one of three labels, the first rule that
  matches winning: \<open>INVESTIGATE\<close> if the priority is high, or the ratio is above \<open>2\<close>
  and the metallurgy risk is not high, or the stage is PEA or Preliminary Assessment with
  no economic study; otherwise \<open>PASS\<close> if the priority is pass, or the metallurgy risk or
  the permitting risk is high; otherwise \<open>WATCH\<close>. A record with high priority and high
  metallurgy risk is \<open>INVESTIGATE\<close>.
\<close>

theorem computeStatus_spec:
  "computeStatus e =
     (if ExtractionInsert.investigation_priority e = Some PriorityHigh \<or>
         (\<exists>r. ind_inf_ratio e = Some r \<and> r > 2 \<and>
              ExtractionInsert.metallurgy_risk e \<noteq> Some RiskHigh) \<or>
         ((ExtractionInsert.report_stage e = Some (js ''PEA'') \<or>
           ExtractionInsert.report_stage e = Some (js ''Preliminary Assessment'')) \<and>
          ExtractionInsert.has_economic_study e \<noteq> Some True)
      then INVESTIGATE
      else if ExtractionInsert.investigation_priority e = Some PriorityPass \<or>
              ExtractionInsert.metallurgy_risk e = Some RiskHigh \<or>
              ExtractionInsert.permitting_risk e = Some RiskHigh
      then PASS
      else WATCH) \<and>
   (ExtractionInsert.investigation_priority e = Some PriorityHigh \<and>
    ExtractionInsert.metallurgy_risk e = Some RiskHigh \<longrightarrow> computeStatus e = INVESTIGATE)"
proof -
  have ratio: "truthy_and_greater (ind_inf_ratio e) 2 \<longleftrightarrow> (\<exists>r. ind_inf_ratio e = Some r \<and> r > 2)"
    by (cases "ind_inf_ratio e") auto
  have study: "falsy_boolean (ExtractionInsert.has_economic_study e) \<longleftrightarrow>
      ExtractionInsert.has_economic_study e \<noteq> Some True"
    by (cases "ExtractionInsert.has_economic_study e") auto
  show ?thesis
    unfolding computeStatus_def ratio study by auto
qed

theorem computeStatus_spec_witness:
  "ExtractionInsert.investigation_priority sample_extraction = Some PriorityHigh \<and>
   ExtractionInsert.metallurgy_risk sample_extraction = Some RiskHigh \<and>
   computeStatus sample_extraction = INVESTIGATE"
  using computeStatus_spec [of sample_extraction]
  by (simp add: sample_extraction_def sample_response_def
      transformClaudeResponseToExtraction_def Let_def)

text \<open>The classifier does not read the status.\<close>

lemma computeStatus_ignores_status:
  "computeStatus (e \<lparr> status := s \<rparr>) = computeStatus e"
  by (simp add: computeStatus_def cong: if_cong)

lemma transform_status:
  "status (transformClaudeResponseToExtraction response userId pdfFilename pdfUrl) =
     Some (computeStatus (transformClaudeResponseToExtraction response userId pdfFilename pdfUrl))"
  unfolding transformClaudeResponseToExtraction_def Let_def
  by (simp only: computeStatus_ignores_status) simp

text \<open>
  Claim C7. In the record the transformer produces, \<open>ind_inf_ratio\<close> is
  \<open>computeIndInfRatio\<close> of the payload's indicated and inferred tonnages,
  \<open>resource_confidence\<close> is \<open>computeResourceConfidence\<close> of that ratio, \<open>status\<close> is
  \<open>computeStatus\<close> of the record, the record is the same whatever the payload's
  \<open>derived_metrics\<close> section holds, and \<open>notes\<close> is \<open>null\<close>.
\<close>

theorem transformClaudeResponseToExtraction_derived:
  "ind_inf_ratio (transformClaudeResponseToExtraction response userId pdfFilename pdfUrl) =
     computeIndInfRatio (ResourceEstimate.total_indicated_mt (resource_estimate response))
       (ResourceEstimate.total_inferred_mt (resource_estimate response)) \<and>
   ExtractionInsert.resource_confidence
       (transformClaudeResponseToExtraction response userId pdfFilename pdfUrl) =
     computeResourceConfidence
       (ind_inf_ratio (transformClaudeResponseToExtraction response userId pdfFilename pdfUrl)) \<and>
   status (transformClaudeResponseToExtraction response userId pdfFilename pdfUrl) =
     Some (computeStatus (transformClaudeResponseToExtraction response userId pdfFilename pdfUrl)) \<and>
   transformClaudeResponseToExtraction (response \<lparr> derived_metrics := d \<rparr>)
       userId pdfFilename pdfUrl =
     transformClaudeResponseToExtraction response userId pdfFilename pdfUrl \<and>
   notes (transformClaudeResponseToExtraction response userId pdfFilename pdfUrl) = None"
proof (intro conjI)
  show "status (transformClaudeResponseToExtraction response userId pdfFilename pdfUrl) =
     Some (computeStatus (transformClaudeResponseToExtraction response userId pdfFilename pdfUrl))"
    by (rule transform_status)
qed (simp_all add: transformClaudeResponseToExtraction_def Let_def)

theorem transformClaudeResponseToExtraction_derived_witness:
  "ind_inf_ratio sample_extraction = Some (5 / 2) \<and>
   ExtractionInsert.resource_confidence sample_extraction = Some ConfHigh \<and>
   status sample_extraction = Some INVESTIGATE \<and>
   notes sample_extraction = None"
  using transformClaudeResponseToExtraction_derived
    [of sample_response "js ''u1''" "js ''report.pdf''" "js ''https://files/u1/report.pdf''"]
  by (simp add: sample_extraction_def sample_response_def computeIndInfRatio_10_4
      computeResourceConfidence_def computeStatus_def
      transformClaudeResponseToExtraction_def Let_def)


section \<open>Properties of the payload validation\<close>

lemma all_keys_in_iff: "all_keys_in keys obj \<longleftrightarrow> (\<forall>key \<in> set keys. key_in key obj)"
  by (induction keys) auto

text \<open>
  Claim C10. \<open>validateExtractionResponse\<close> is true exactly of the objects that have all
  seven keys \<open>metadata\<close>, \<open>project_basics\<close>, \<open>resource_estimate\<close>, \<open>economics\<close>,
  \<open>risk_assessment\<close>, \<open>investment_analysis\<close> and \<open>derived_metrics\<close>, whatever is stored
  under them (a \<open>null\<close> or a number passes); it is false of every other value and of
  every object that lacks one of the keys.
\<close>

theorem validateExtractionResponse_spec:
  "(validateExtractionResponse data \<longleftrightarrow>
      (\<exists>kvs. data = JObj kvs \<and>
         js ''metadata'' \<in> fst ` set kvs \<and>
         js ''project_basics'' \<in> fst ` set kvs \<and>
         js ''resource_estimate'' \<in> fst ` set kvs \<and>
         js ''economics'' \<in> fst ` set kvs \<and>
         js ''risk_assessment'' \<in> fst ` set kvs \<and>
         js ''investment_analysis'' \<in> fst ` set kvs \<and>
         js ''derived_metrics'' \<in> fst ` set kvs)) \<and>
   validateExtractionResponse
     (JObj [(js ''metadata'', JNull), (js ''project_basics'', JNum 5),
            (js ''resource_estimate'', JStr []), (js ''economics'', JBool False),
            (js ''risk_assessment'', JArr []), (js ''investment_analysis'', JObj []),
            (js ''derived_metrics'', JNull)])"
  by (cases data) (auto simp: validateExtractionResponse_def all_keys_in_iff requiredKeys_def)

theorem validateExtractionResponse_spec_witness:
  "\<not> validateExtractionResponse
     (JObj [(js ''metadata'', JObj []), (js ''project_basics'', JObj []),
            (js ''resource_estimate'', JObj []), (js ''economics'', JObj []),
            (js ''risk_assessment'', JObj []), (js ''investment_analysis'', JObj [])]) \<and>
   \<not> validateExtractionResponse (JArr []) \<and>
   \<not> validateExtractionResponse (JStr (js ''metadata'')) \<and>
   validateExtractionResponse
     (JObj [(js ''derived_metrics'', JNum 1), (js ''metadata'', JNull),
            (js ''project_basics'', JNull), (js ''resource_estimate'', JNull),
            (js ''economics'', JNull), (js ''risk_assessment'', JNull),
            (js ''investment_analysis'', JNull)])"
  using validateExtractionResponse_spec
     [of "JObj [(js ''metadata'', JObj []), (js ''project_basics'', JObj []),
            (js ''resource_estimate'', JObj []), (js ''economics'', JObj []),
            (js ''risk_assessment'', JObj []), (js ''investment_analysis'', JObj [])]"]
    validateExtractionResponse_spec [of "JArr []"]
    validateExtractionResponse_spec [of "JStr (js ''metadata'')"]
    validateExtractionResponse_spec
     [of "JObj [(js ''derived_metrics'', JNum 1), (js ''metadata'', JNull),
            (js ''project_basics'', JNull), (js ''resource_estimate'', JNull),
            (js ''economics'', JNull), (js ''risk_assessment'', JNull),
            (js ''investment_analysis'', JNull)]"]
  by (simp add: js_def)

section \<open>Properties of the extraction fallback pipeline\<close>

text \<open>\<open>startsWith\<close> and \<open>includes\<close> are the prefix and the substring test.\<close>

lemma startsWith_iff: "startsWith s p \<longleftrightarrow> (\<exists>rest. s = p @ rest)"
  by (induction s p rule: startsWith.induct) auto

lemma includes_str_iff: "includes_str s p \<longleftrightarrow> (\<exists>before after. s = before @ p @ after)"
proof (induction s)
  case Nil
  then show ?case by auto
next
  case (Cons c cs)
  show ?case
  proof
    assume "includes_str (c # cs) p"
    then consider "startsWith (c # cs) p" | "includes_str cs p" by auto
    then show "\<exists>before after. c # cs = before @ p @ after"
    proof cases
      case 1
      then obtain rest where "c # cs = p @ rest" by (auto simp: startsWith_iff)
      then have "c # cs = [] @ p @ rest" by simp
      then show ?thesis by blast
    next
      case 2
      then obtain before after where "cs = before @ p @ after" using Cons.IH by auto
      then have "c # cs = (c # before) @ p @ after" by simp
      then show ?thesis by blast
    qed
  next
    assume "\<exists>before after. c # cs = before @ p @ after"
    then obtain before after where eq: "c # cs = before @ p @ after" by auto
    show "includes_str (c # cs) p"
    proof (cases before)
      case Nil
      then have "startsWith (c # cs) p" using eq by (auto simp: startsWith_iff)
      then show ?thesis by simp
    next
      case (Cons b bs)
      then have "cs = bs @ p @ after" using eq by simp
      then have "includes_str cs p" using Cons.IH by auto
      then show ?thesis by simp
    qed
  qed
qed

text \<open>A document of at most 150000 pages is sent whole, whatever the length of its text.\<close>

lemma extractFromPdfText_sends_all_pages:
  assumes "extractText w pdfBase64 = Inr pages" and "length pages \<le> 150000"
  shows "extractFromPdfText w pdfBase64 =
           (case messages_create_text w (join_comma pages) of
              Inl error \<Rightarrow>
                (Inl error, [TextExtraction pdfBase64, TextRequest (join_comma pages)])
            | Inr response \<Rightarrow>
                (parseClaudeResponse w response,
                 [TextExtraction pdfBase64, TextRequest (join_comma pages)]))"
proof -
  have "truncatedText pages = join_comma pages"
    using assms(2) by (simp add: truncatedText_def maxChars_def)
  then show ?thesis
    using assms(1) by (simp add: extractFromPdfText_def split: sum.splits)
qed

text \<open>
  Claim C8 says that in the text path a text of more than 150000 characters is cut to
  its first 150000 characters and the truncation marker appended. The code compares
  \<open>pdfText.length\<close> with the budget, under the comment "Truncate if needed", but
  \<open>pdfText\<close> is the array of pages and its length the number of pages. Here the text is
  one page of 150001 code units: it is sent as it is, with no marker, and the request
  is refused for its length.
\<close>

theorem extractFromPdfText_long_text_untruncated:
  "extractText long_text_services (js ''JVBERi0='') = Inr [replicate 150001 0x41] \<and>
   truncatedText [replicate 150001 0x41] = replicate 150001 0x41 \<and>
   length (truncatedText [replicate 150001 0x41]) = 150001 \<and>
   extractFromPdfText long_text_services (js ''JVBERi0='') =
     (Inl (ErrorObject (js ''prompt is too long'')),
      [TextExtraction (js ''JVBERi0=''), TextRequest (replicate 150001 0x41)])"
  by (simp add: extractFromPdfText_def truncatedText_def maxChars_def long_text_services_def
      sample_services_def)

text \<open>
  Claim C5. When the native attempt fails: if the message of the failure contains
  \<open>100 PDF pages\<close> or \<open>maximum\<close>, the text path is run once and its result is the
  result; for any other message the failure is thrown on and the text path is not run.
\<close>

theorem extractFromPdf_fallback:
  assumes "native_attempt w pdfBase64 = Inl error"
  shows "(size_limit_pattern (message_or_string error) \<longleftrightarrow>
            (\<exists>before after. message_or_string error = before @ js ''100 PDF pages'' @ after) \<or>
            (\<exists>before after. message_or_string error = before @ js ''maximum'' @ after)) \<and>
         (size_limit_pattern (message_or_string error) \<longrightarrow>
            fst (extractFromPdf w pdfBase64) = fst (extractFromPdfText w pdfBase64) \<and>
            snd (extractFromPdf w pdfBase64) =
              DocumentRequest pdfBase64 # snd (extractFromPdfText w pdfBase64) \<and>
            length (filter is_text_path_call (snd (extractFromPdf w pdfBase64))) = 1) \<and>
         (\<not> size_limit_pattern (message_or_string error) \<longrightarrow>
            extractFromPdf w pdfBase64 = (Inl error, [DocumentRequest pdfBase64]) \<and>
            filter is_text_path_call (snd (extractFromPdf w pdfBase64)) = [])"
proof (intro conjI impI)
  show "size_limit_pattern (message_or_string error) \<longleftrightarrow>
            (\<exists>before after. message_or_string error = before @ js ''100 PDF pages'' @ after) \<or>
            (\<exists>before after. message_or_string error = before @ js ''maximum'' @ after)"
    by (simp add: size_limit_pattern_def includes_str_iff)
next
  assume m: "size_limit_pattern (message_or_string error)"
  then show "fst (extractFromPdf w pdfBase64) = fst (extractFromPdfText w pdfBase64)"
    using assms by (simp add: extractFromPdf_def split: prod.splits)
  show s: "snd (extractFromPdf w pdfBase64) =
      DocumentRequest pdfBase64 # snd (extractFromPdfText w pdfBase64)"
    using assms m by (simp add: extractFromPdf_def split: prod.splits)
  have "length (filter is_text_path_call (snd (extractFromPdfText w pdfBase64))) = 1"
    by (simp add: extractFromPdfText_def split: sum.splits)
  then show "length (filter is_text_path_call (snd (extractFromPdf w pdfBase64))) = 1"
    by (simp add: s)
next
  assume n: "\<not> size_limit_pattern (message_or_string error)"
  then show e: "extractFromPdf w pdfBase64 = (Inl error, [DocumentRequest pdfBase64])"
    using assms by (simp add: extractFromPdf_def)
  show "filter is_text_path_call (snd (extractFromPdf w pdfBase64)) = []"
    by (simp add: e)
qed

lemma sample_native_attempt:
  "native_attempt sample_services (js ''JVBERi0='') =
     Inl (ErrorObject (js ''A maximum of 100 PDF pages may be provided.''))"
  by (simp add: native_attempt_def sample_services_def)

lemma rate_limited_native_attempt:
  "native_attempt rate_limited_services (js ''JVBERi0='') =
     Inl (ErrorObject (js ''429 rate_limit_error''))"
  by (simp add: native_attempt_def rate_limited_services_def sample_services_def)

lemma sample_size_limit:
  "size_limit_pattern (js ''A maximum of 100 PDF pages may be provided.'')"
  by (simp add: size_limit_pattern_def js_def)

lemma rate_limit_no_size_limit:
  "\<not> size_limit_pattern (js ''429 rate_limit_error'')"
  by (simp add: size_limit_pattern_def js_def)

lemma sample_text_path:
  "extractFromPdfText sample_services (js ''JVBERi0='') =
     (Inr (JObj []),
      [TextExtraction (js ''JVBERi0=''), TextRequest (js ''NI 43-101 Technical Report'')])"
  by (simp add: extractFromPdfText_def sample_services_def truncatedText_def maxChars_def
      parseClaudeResponse_def trim_def is_whitespace_def fence_def endsWith_def js_def)

theorem extractFromPdf_fallback_witness:
  "native_attempt sample_services (js ''JVBERi0='') =
     Inl (ErrorObject (js ''A maximum of 100 PDF pages may be provided.'')) \<and>
   size_limit_pattern (js ''A maximum of 100 PDF pages may be provided.'') \<and>
   extractFromPdf sample_services (js ''JVBERi0='') =
     (Inr (JObj []),
      [DocumentRequest (js ''JVBERi0=''), TextExtraction (js ''JVBERi0=''),
       TextRequest (js ''NI 43-101 Technical Report'')]) \<and>
   native_attempt rate_limited_services (js ''JVBERi0='') =
     Inl (ErrorObject (js ''429 rate_limit_error'')) \<and>
   \<not> size_limit_pattern (js ''429 rate_limit_error'') \<and>
   extractFromPdf rate_limited_services (js ''JVBERi0='') =
     (Inl (ErrorObject (js ''429 rate_limit_error'')), [DocumentRequest (js ''JVBERi0='')])"
  using extractFromPdf_fallback [OF sample_native_attempt]
    extractFromPdf_fallback [OF rate_limited_native_attempt]
    sample_native_attempt rate_limited_native_attempt sample_size_limit
    rate_limit_no_size_limit sample_text_path
  by (simp add: prod_eq_iff)

text \<open>A reply with no text block fails with a message the pattern does not match.\<close>

lemma no_text_reply_fails:
  assumes "messages_create_document w pdfBase64 = Inr response"
    and "find is_text (content response) = None"
  shows "extractFromPdf w pdfBase64 =
           (Inl (ErrorObject (js ''No text response from Claude'')),
            [DocumentRequest pdfBase64])"
proof -
  have "\<not> size_limit_pattern (js ''No text response from Claude'')"
    by (simp add: size_limit_pattern_def js_def)
  then show ?thesis
    using assms
    by (simp add: extractFromPdf_def native_attempt_def parseClaudeResponse_def)
qed

text \<open>
  Claim C6 says that a reply that does not parse ends the run as a failure, with no
  second attempt. The parse of the native reply sits inside the \<open>try\<close> block whose
  \<open>catch\<close> tests the message for the size-limit pattern, so a parse error is tested
  too. Here the reply is the text \<open>maximum\<close>; the \<open>SyntaxError\<close> of \<open>JSON.parse\<close> quotes
  it, the pattern matches, and the run goes on to the text path and succeeds.
\<close>

theorem extractFromPdf_malformed_reply_retried:
  "native_attempt malformed_reply_services (js ''JVBERi0='') =
     Inl (ErrorObject
       (js ''Unexpected token '' @ [0x27] @ js ''m'' @ [0x27] @ js '', '' @ [0x22] @
        js ''maximum'' @ [0x22] @ js '' is not valid JSON'')) \<and>
   extractFromPdf malformed_reply_services (js ''JVBERi0='') =
     (Inr (JObj []),
      [DocumentRequest (js ''JVBERi0=''), TextExtraction (js ''JVBERi0=''),
       TextRequest (js ''NI 43-101 Technical Report'')])"
  by (simp add: extractFromPdf_def native_attempt_def malformed_reply_services_def
      sample_services_def extractFromPdfText_def truncatedText_def maxChars_def
      size_limit_pattern_def
      parseClaudeResponse_def trim_def is_whitespace_def fence_def endsWith_def js_def)

section \<open>Properties of the extraction route\<close>

lemma missing_key_invalid:
  assumes "key \<in> set requiredKeys" "\<not> key_in key payload"
  shows "\<not> validateExtractionResponse payload"
  using assms by (auto simp: validateExtractionResponse_def all_keys_in_iff)

text \<open>A run that reaches the transformation, or changes the table, had a valid payload.\<close>

lemma transform_only_after_validation:
  assumes "validate_transform_insert pf userId fileName publicUrl payload tbl =
             Returns (response, tbl', stages)"
    and "Transform \<in> set stages \<or> tbl' \<noteq> tbl"
  shows "validateExtractionResponse payload"
  using assms
  by (auto simp: validate_transform_insert_def Let_def
      split: if_splits option.splits sum.splits prod.splits)

text \<open>
  Claim C4. When the extraction returns a payload that lacks one of the seven required
  sections, the route answers with the error \<open>Invalid extraction response from AI\<close>
  (status 500), leaves the table as it was, and stops after the validation: neither the
  transformation nor the insert is reached.
\<close>

theorem POST_rejects_incomplete_payload:
  assumes "auth_getUser pf = Some userId"
    and "request_json pf = Inr (Some storagePath, originalFilename)"
    and "storagePath \<noteq> []"
    and "startsWith storagePath (userId @ js ''/'')"
    and "storage_download pf storagePath = Some base64"
    and "fst (extractFromPdf w base64) = Inr payload"
    and "key \<in> {js ''metadata'', js ''project_basics'', js ''resource_estimate'',
                 js ''economics'', js ''risk_assessment'', js ''investment_analysis'',
                 js ''derived_metrics''}"
    and "\<not> key_in key payload"
  shows "POST w pf tbl =
           Returns (NextResponse_json
                      (ErrorBody (js ''Invalid extraction response from AI'')) 500,
                    tbl, [Extract, Validate])"
proof -
  have "key \<in> set requiredKeys"
    using assms(7) by (simp add: requiredKeys_def)
  then have invalid: "\<not> validateExtractionResponse payload"
    using assms(8) by (rule missing_key_invalid)
  have "POST w pf tbl =
      validate_transform_insert pf userId (fileName_of originalFilename storagePath)
        (storage_getPublicUrl pf storagePath) payload tbl"
    using assms(1-6) by (simp add: POST_def Let_def)
  then show ?thesis
    using invalid by (simp add: validate_transform_insert_def)
qed

lemma sample_extractFromPdf:
  "fst (extractFromPdf sample_services (js ''JVBERi0='')) = Inr (JObj [])"
  by (simp add: extractFromPdf_def sample_native_attempt sample_size_limit sample_text_path)

theorem POST_rejects_incomplete_payload_witness:
  "auth_getUser sample_platform = Some (js ''u1'') \<and>
   request_json sample_platform =
     Inr (Some (js ''u1/1738324800000-k3x9.pdf''), Some (js ''report.pdf'')) \<and>
   js ''u1/1738324800000-k3x9.pdf'' \<noteq> [] \<and>
   startsWith (js ''u1/1738324800000-k3x9.pdf'') (js ''u1'' @ js ''/'') \<and>
   storage_download sample_platform (js ''u1/1738324800000-k3x9.pdf'') = Some (js ''JVBERi0='') \<and>
   fst (extractFromPdf sample_services (js ''JVBERi0='')) = Inr (JObj []) \<and>
   \<not> key_in (js ''metadata'') (JObj []) \<and>
   POST sample_services sample_platform [sample_row] =
     Returns (NextResponse_json
                (ErrorBody (js ''Invalid extraction response from AI'')) 500,
              [sample_row], [Extract, Validate])"
proof -
  have a: "auth_getUser sample_platform = Some (js ''u1'')"
    by (simp add: sample_platform_def)
  have b: "request_json sample_platform =
      Inr (Some (js ''u1/1738324800000-k3x9.pdf''), Some (js ''report.pdf''))"
    by (simp add: sample_platform_def)
  have c: "js ''u1/1738324800000-k3x9.pdf'' \<noteq> []"
    by (simp add: js_def)
  have d: "startsWith (js ''u1/1738324800000-k3x9.pdf'') (js ''u1'' @ js ''/'')"
    by (simp add: js_def)
  have e: "storage_download sample_platform (js ''u1/1738324800000-k3x9.pdf'') =
      Some (js ''JVBERi0='')"
    by (simp add: sample_platform_def)
  have f: "js ''metadata'' \<in> {js ''metadata'', js ''project_basics'',
      js ''resource_estimate'', js ''economics'', js ''risk_assessment'',
      js ''investment_analysis'', js ''derived_metrics''}"
    by simp
  have g: "\<not> key_in (js ''metadata'') (JObj [])"
    by simp
  show ?thesis
    using a b c d e g sample_extractFromPdf
      POST_rejects_incomplete_payload [OF a b c d e sample_extractFromPdf f g, of "[sample_row]"]
    by simp
qed

section \<open>Properties of the persistence gateway\<close>

lemma filter_by_id:
  assumes "row \<in> set tbl" "distinct (map Extraction.id tbl)"
  shows "filter (\<lambda>r. Extraction.id r = Extraction.id row) tbl = [row]"
  using assms
proof (induction tbl)
  case Nil
  then show ?case by simp
next
  case (Cons a tbl)
  show ?case
  proof (cases "a = row")
    case True
    have notin: "Extraction.id row \<notin> Extraction.id ` set tbl"
      using Cons.prems True by simp
    have "\<forall>r \<in> set tbl. Extraction.id r \<noteq> Extraction.id row"
    proof
      fix r
      assume "r \<in> set tbl"
      then have "Extraction.id r \<in> Extraction.id ` set tbl"
        by (rule imageI)
      then show "Extraction.id r \<noteq> Extraction.id row"
        using notin by metis
    qed
    then have "filter (\<lambda>r. Extraction.id r = Extraction.id row) tbl = []"
      by (simp add: filter_empty_conv)
    then show ?thesis using True by simp
  next
    case False
    then have in_tl: "row \<in> set tbl" using Cons.prems by simp
    then have "Extraction.id a \<noteq> Extraction.id row"
      using Cons.prems by auto
    moreover have "filter (\<lambda>r. Extraction.id r = Extraction.id row) tbl = [row]"
      using Cons.IH in_tl Cons.prems by simp
    ultimately show ?thesis by simp
  qed
qed

lemma filter_own_by_id:
  assumes "row \<in> set tbl" "distinct (map Extraction.id tbl)"
  shows "filter (\<lambda>r. own_row uid r \<and> Extraction.id r = Extraction.id row) tbl =
           (if own_row uid row then [row] else [])"
proof -
  have "filter (\<lambda>r. own_row uid r \<and> Extraction.id r = Extraction.id row) tbl =
        filter (own_row uid) (filter (\<lambda>r. Extraction.id r = Extraction.id row) tbl)"
    by (simp add: conj_commute)
  then show ?thesis
    using filter_by_id [OF assms] by simp
qed

lemma sample_row_fields:
  "user_id sample_row = js ''u1''" "Extraction.id sample_row = js ''r1''"
  by (simp_all add: sample_row_def ExtractionInsert.extend_def sample_extraction_def
      transformClaudeResponseToExtraction_def Let_def)

text \<open>
  Claim C9, as the code has it. A row passes the policies for exactly one user, its
  \<open>user_id\<close>. For a caller who is not that user the policies hide the row:
  \<open>getExtraction\<close> returns \<open>null\<close>, \<open>updateExtraction\<close> throws the no-row error of
  \<open>.single()\<close> and changes nothing, \<open>deleteExtraction\<close> returns \<open>true\<close> and deletes
  nothing. The owner gets the row back from \<open>getExtraction\<close>, and \<open>deleteExtraction\<close>
  removes it.
\<close>

theorem row_level_isolation:
  assumes "row \<in> set tbl" "distinct (map Extraction.id tbl)" "uid \<noteq> Some (user_id row)"
  shows "(\<forall>u. own_row (Some u) row \<longleftrightarrow> u = user_id row) \<and>
         getExtraction uid tbl (Extraction.id row) = None \<and>
         updateExtraction pf uid tbl (Extraction.id row) updates = (Inl NoSingleRow, tbl) \<and>
         deleteExtraction uid tbl (Extraction.id row) = (Inr True, tbl) \<and>
         getExtraction (Some (user_id row)) tbl (Extraction.id row) = Some row \<and>
         deleteExtraction (Some (user_id row)) tbl (Extraction.id row) =
           (Inr True, filter (\<lambda>r. r \<noteq> row) tbl)"
proof -
  have not_own: "\<not> own_row uid row"
    using assms(3) by (simp add: own_row_def)
  have own: "own_row (Some (user_id row)) row"
    by (simp add: own_row_def)
  have none: "filter (\<lambda>r. own_row uid r \<and> Extraction.id r = Extraction.id row) tbl = []"
    using filter_own_by_id [OF assms(1,2), of uid] not_own by simp
  have one: "filter (\<lambda>r. own_row (Some (user_id row)) r \<and>
      Extraction.id r = Extraction.id row) tbl = [row]"
    using filter_own_by_id [OF assms(1,2), of "Some (user_id row)"] own by simp
  have untouched: "filter (\<lambda>r. \<not> (own_row uid r \<and> Extraction.id r = Extraction.id row)) tbl = tbl"
  proof -
    have "\<forall>r \<in> set tbl. \<not> (own_row uid r \<and> Extraction.id r = Extraction.id row)"
      using none by (simp add: filter_empty_conv)
    then show ?thesis
      by (simp add: filter_id_conv)
  qed
  have same: "\<And>r. r \<in> set tbl \<Longrightarrow>
      (own_row (Some (user_id row)) r \<and> Extraction.id r = Extraction.id row) = (r = row)"
  proof -
    fix r assume r: "r \<in> set tbl"
    have "r \<in> set (filter (\<lambda>r. own_row (Some (user_id row)) r \<and>
        Extraction.id r = Extraction.id row) tbl) \<longleftrightarrow> r \<in> set [row]"
      by (simp only: one)
    then show "(own_row (Some (user_id row)) r \<and> Extraction.id r = Extraction.id row) = (r = row)"
      using r by simp
  qed
  have removed: "filter (\<lambda>r. \<not> (own_row (Some (user_id row)) r \<and>
      Extraction.id r = Extraction.id row)) tbl = filter (\<lambda>r. r \<noteq> row) tbl"
    by (rule filter_cong) (simp_all add: same)
  show ?thesis
  proof (intro conjI allI)
    fix u show "own_row (Some u) row \<longleftrightarrow> u = user_id row"
      by (auto simp: own_row_def)
  next
    show "getExtraction uid tbl (Extraction.id row) = None"
      by (simp add: getExtraction_def none)
  next
    show "updateExtraction pf uid tbl (Extraction.id row) updates = (Inl NoSingleRow, tbl)"
      by (simp add: updateExtraction_def none Let_def)
  next
    show "deleteExtraction uid tbl (Extraction.id row) = (Inr True, tbl)"
      unfolding deleteExtraction_def untouched by simp
  next
    show "getExtraction (Some (user_id row)) tbl (Extraction.id row) = Some row"
      by (simp add: getExtraction_def one)
  next
    show "deleteExtraction (Some (user_id row)) tbl (Extraction.id row) =
        (Inr True, filter (\<lambda>r. r \<noteq> row) tbl)"
      unfolding deleteExtraction_def removed by simp
  qed
qed

theorem row_level_isolation_witness:
  "sample_row \<in> set [sample_row] \<and> distinct (map Extraction.id [sample_row]) \<and>
   Some (js ''u2'') \<noteq> Some (user_id sample_row) \<and>
   getExtraction (Some (js ''u2'')) [sample_row] (js ''r1'') = None \<and>
   updateExtraction sample_platform (Some (js ''u2'')) [sample_row] (js ''r1'')
       (\<lambda>e. e \<lparr> notes := Some (js ''seen'') \<rparr>) =
     (Inl NoSingleRow, [sample_row]) \<and>
   deleteExtraction (Some (js ''u2'')) [sample_row] (js ''r1'') = (Inr True, [sample_row]) \<and>
   getExtraction (Some (js ''u1'')) [sample_row] (js ''r1'') = Some sample_row \<and>
   deleteExtraction (Some (js ''u1'')) [sample_row] (js ''r1'') = (Inr True, [])"
proof -
  have a: "sample_row \<in> set [sample_row]" by simp
  have b: "distinct (map Extraction.id [sample_row])" by simp
  have c: "Some (js ''u2'') \<noteq> Some (user_id sample_row)"
    by (simp add: sample_row_fields js_def)
  show ?thesis
    using a b c row_level_isolation [OF a b c, of sample_platform "\<lambda>e. e \<lparr> notes := Some (js ''seen'') \<rparr>"]
    by (simp add: sample_row_fields)
qed

text \<open>
  Claim C9 as the specification words it fails: a delete by another user returns \<open>true\<close>,
  not an authorization failure, and a get by another user returns \<open>null\<close>.
\<close>

theorem deleteExtraction_non_owner_counterexample:
  "Some (js ''u2'') \<noteq> Some (user_id sample_row) \<and>
   deleteExtraction (Some (js ''u2'')) [sample_row] (Extraction.id sample_row) =
     (Inr True, [sample_row]) \<and>
   getExtraction (Some (js ''u2'')) [sample_row] (Extraction.id sample_row) = None"
  by (simp add: deleteExtraction_def getExtraction_def own_row_def sample_row_fields js_def)


end
